theory Spec2Isabelle
  imports Main "HOL-Library.Sublist" "HOL-Library.Code_Target_Nat"
begin

section \<open>JavaScript strings\<close>

text \<open>
  A JavaScript string is a sequence of UTF-16 code units. It is modelled by the list of
  its bytes (\<open>string\<close>) in generalized UTF-8: UTF-8, in which a surrogate that has no
  partner is written like any other code point of its size. An ASCII literal is itself,
  the emoji of the response texts are their byte sequences, and the operations that work
  on code points (case conversion, \<open>encodeURIComponent\<close>, \<open>JSON.stringify\<close>) first read the
  bytes as code points.
\<close>

subsection \<open>Code points\<close>

definition continuation :: "char \<Rightarrow> bool" where
  "continuation b \<longleftrightarrow> 0x80 \<le> (of_char b :: nat) \<and> (of_char b :: nat) < 0xC0"

definition sequence_length :: "char \<Rightarrow> nat" where
  \<comment> \<open>the length of the sequence a byte opens\<close>
  "sequence_length b =
     (let n = of_char b :: nat
      in if 0xC0 \<le> n \<and> n < 0xE0 then 2
         else if 0xE0 \<le> n \<and> n < 0xF0 then 3
         else if 0xF0 \<le> n \<and> n < 0xF8 then 4
         else 1)"

definition utf8 :: "nat \<Rightarrow> string" where
  \<comment> \<open>the bytes of a code point; beyond U+10FFFF there are none\<close>
  "utf8 c =
     (if c < 0x80 then [char_of c]
      else if c < 0x800 then [char_of (0xC0 + c div 0x40), char_of (0x80 + c mod 0x40)]
      else if c < 0x10000 then
        [char_of (0xE0 + c div 0x1000), char_of (0x80 + c div 0x40 mod 0x40),
         char_of (0x80 + c mod 0x40)]
      else if c < 0x110000 then
        [char_of (0xF0 + c div 0x40000), char_of (0x80 + c div 0x1000 mod 0x40),
         char_of (0x80 + c div 0x40 mod 0x40), char_of (0x80 + c mod 0x40)]
      else [])"

definition scalar_value :: "string \<Rightarrow> nat" where
  \<comment> \<open>the code point a sequence of two to four bytes stands for, if it stands for one\<close>
  "scalar_value bs =
     (case map of_char bs of
        [a, b] \<Rightarrow> (a - 0xC0) * 0x40 + (b - 0x80)
      | [a, b, c] \<Rightarrow> (a - 0xE0) * 0x1000 + (b - 0x80) * 0x40 + (c - 0x80)
      | [a, b, c, d] \<Rightarrow>
          (a - 0xF0) * 0x40000 + (b - 0x80) * 0x1000 + (c - 0x80) * 0x40 + (d - 0x80)
      | _ \<Rightarrow> 0)"

text \<open>
  A byte list that is not well formed stands for no JavaScript string, and neither does
  one that writes the two surrogates of a pair apart: a pair is written as the one code
  point beyond U+FFFF it stands for. So that the operations are defined on every byte
  list, a byte that belongs to no well-formed sequence is kept as it is (\<open>Stray\<close>).
\<close>

datatype symbol = Point nat | Stray char

definition sequence :: "string \<Rightarrow> symbol list" where
  \<comment> \<open>a lead byte with all the continuation bytes it asks for\<close>
  "sequence bs =
     (if utf8 (scalar_value bs) = bs then [Point (scalar_value bs)] else map Stray bs)"

fun symbols_from :: "string \<Rightarrow> string \<Rightarrow> symbol list" where
  \<comment> \<open>the first argument is the sequence that has been opened and is not complete yet\<close>
  "symbols_from pending [] = map Stray pending"
| "symbols_from pending (b # bs) =
     (if pending \<noteq> [] \<and> continuation b then
        (if length pending + 1 = sequence_length (hd pending)
         then sequence (pending @ [b]) @ symbols_from [] bs
         else symbols_from (pending @ [b]) bs)
      else map Stray pending @
        (if (of_char b :: nat) < 0x80 then Point (of_char b) # symbols_from [] bs
         else if 1 < sequence_length b then symbols_from [b] bs
         else Stray b # symbols_from [] bs))"

definition symbols :: "string \<Rightarrow> symbol list" where
  "symbols s = symbols_from [] s"

definition bytes :: "symbol \<Rightarrow> string" where
  "bytes u = (case u of Point c \<Rightarrow> utf8 c | Stray b \<Rightarrow> [b])"

definition lone_surrogate :: "symbol \<Rightarrow> bool" where
  \<comment> \<open>a surrogate code unit without its partner: a pair is one code point beyond U+FFFF\<close>
  "lone_surrogate u = (case u of Point c \<Rightarrow> 0xD800 \<le> c \<and> c \<le> 0xDFFF | Stray b \<Rightarrow> False)"

subsection \<open>Case conversion\<close>

text \<open>
  \<open>toLowerCase\<close> and \<open>toUpperCase\<close> use the locale-insensitive case mappings of the Unicode
  Character Database: the simple mappings, the unconditional mappings of
  SpecialCasing.txt to more than one code point, and, for lower case, the one mapping
  with a condition, the final sigma. The tables below are those of Unicode 14.0.
\<close>

definition lower_table :: "(nat \<times> nat \<times> nat \<times> nat) list" where
  \<comment> \<open>the simple lowercase mappings: first, last, step, image of the first\<close>
  "lower_table =
     [(0x41, 0x5A, 1, 0x61), (0xC0, 0xD6, 1, 0xE0), (0xD8, 0xDE, 1, 0xF8),
      (0x100, 0x12E, 2, 0x101), (0x132, 0x136, 2, 0x133), (0x139, 0x147, 2, 0x13A),
      (0x14A, 0x176, 2, 0x14B), (0x178, 0x178, 1, 0xFF), (0x179, 0x17D, 2, 0x17A),
      (0x181, 0x181, 1, 0x253), (0x182, 0x184, 2, 0x183), (0x186, 0x186, 1, 0x254),
      (0x187, 0x187, 1, 0x188), (0x189, 0x18A, 1, 0x256), (0x18B, 0x18B, 1, 0x18C),
      (0x18E, 0x18E, 1, 0x1DD), (0x18F, 0x18F, 1, 0x259), (0x190, 0x190, 1, 0x25B),
      (0x191, 0x191, 1, 0x192), (0x193, 0x193, 1, 0x260), (0x194, 0x194, 1, 0x263),
      (0x196, 0x196, 1, 0x269), (0x197, 0x197, 1, 0x268), (0x198, 0x198, 1, 0x199),
      (0x19C, 0x19C, 1, 0x26F), (0x19D, 0x19D, 1, 0x272), (0x19F, 0x19F, 1, 0x275),
      (0x1A0, 0x1A4, 2, 0x1A1), (0x1A6, 0x1A6, 1, 0x280), (0x1A7, 0x1A7, 1, 0x1A8),
      (0x1A9, 0x1A9, 1, 0x283), (0x1AC, 0x1AC, 1, 0x1AD), (0x1AE, 0x1AE, 1, 0x288),
      (0x1AF, 0x1AF, 1, 0x1B0), (0x1B1, 0x1B2, 1, 0x28A), (0x1B3, 0x1B5, 2, 0x1B4),
      (0x1B7, 0x1B7, 1, 0x292), (0x1B8, 0x1B8, 1, 0x1B9), (0x1BC, 0x1BC, 1, 0x1BD),
      (0x1C4, 0x1C4, 1, 0x1C6), (0x1C5, 0x1C5, 1, 0x1C6), (0x1C7, 0x1C7, 1, 0x1C9),
      (0x1C8, 0x1C8, 1, 0x1C9), (0x1CA, 0x1CA, 1, 0x1CC), (0x1CB, 0x1DB, 2, 0x1CC),
      (0x1DE, 0x1EE, 2, 0x1DF), (0x1F1, 0x1F1, 1, 0x1F3), (0x1F2, 0x1F4, 2, 0x1F3),
      (0x1F6, 0x1F6, 1, 0x195), (0x1F7, 0x1F7, 1, 0x1BF), (0x1F8, 0x21E, 2, 0x1F9),
      (0x220, 0x220, 1, 0x19E), (0x222, 0x232, 2, 0x223), (0x23A, 0x23A, 1, 0x2C65),
      (0x23B, 0x23B, 1, 0x23C), (0x23D, 0x23D, 1, 0x19A), (0x23E, 0x23E, 1, 0x2C66),
      (0x241, 0x241, 1, 0x242), (0x243, 0x243, 1, 0x180), (0x244, 0x244, 1, 0x289),
      (0x245, 0x245, 1, 0x28C), (0x246, 0x24E, 2, 0x247), (0x370, 0x372, 2, 0x371),
      (0x376, 0x376, 1, 0x377), (0x37F, 0x37F, 1, 0x3F3), (0x386, 0x386, 1, 0x3AC),
      (0x388, 0x38A, 1, 0x3AD), (0x38C, 0x38C, 1, 0x3CC), (0x38E, 0x38F, 1, 0x3CD),
      (0x391, 0x3A1, 1, 0x3B1), (0x3A3, 0x3AB, 1, 0x3C3), (0x3CF, 0x3CF, 1, 0x3D7),
      (0x3D8, 0x3EE, 2, 0x3D9), (0x3F4, 0x3F4, 1, 0x3B8), (0x3F7, 0x3F7, 1, 0x3F8),
      (0x3F9, 0x3F9, 1, 0x3F2), (0x3FA, 0x3FA, 1, 0x3FB), (0x3FD, 0x3FF, 1, 0x37B),
      (0x400, 0x40F, 1, 0x450), (0x410, 0x42F, 1, 0x430), (0x460, 0x480, 2, 0x461),
      (0x48A, 0x4BE, 2, 0x48B), (0x4C0, 0x4C0, 1, 0x4CF), (0x4C1, 0x4CD, 2, 0x4C2),
      (0x4D0, 0x52E, 2, 0x4D1), (0x531, 0x556, 1, 0x561), (0x10A0, 0x10C5, 1, 0x2D00),
      (0x10C7, 0x10C7, 1, 0x2D27), (0x10CD, 0x10CD, 1, 0x2D2D), (0x13A0, 0x13EF, 1, 0xAB70),
      (0x13F0, 0x13F5, 1, 0x13F8), (0x1C90, 0x1CBA, 1, 0x10D0), (0x1CBD, 0x1CBF, 1, 0x10FD),
      (0x1E00, 0x1E94, 2, 0x1E01), (0x1E9E, 0x1E9E, 1, 0xDF), (0x1EA0, 0x1EFE, 2, 0x1EA1),
      (0x1F08, 0x1F0F, 1, 0x1F00), (0x1F18, 0x1F1D, 1, 0x1F10), (0x1F28, 0x1F2F, 1, 0x1F20),
      (0x1F38, 0x1F3F, 1, 0x1F30), (0x1F48, 0x1F4D, 1, 0x1F40), (0x1F59, 0x1F5F, 2, 0x1F51),
      (0x1F68, 0x1F6F, 1, 0x1F60), (0x1F88, 0x1F8F, 1, 0x1F80), (0x1F98, 0x1F9F, 1, 0x1F90),
      (0x1FA8, 0x1FAF, 1, 0x1FA0), (0x1FB8, 0x1FB9, 1, 0x1FB0), (0x1FBA, 0x1FBB, 1, 0x1F70),
      (0x1FBC, 0x1FBC, 1, 0x1FB3), (0x1FC8, 0x1FCB, 1, 0x1F72), (0x1FCC, 0x1FCC, 1, 0x1FC3),
      (0x1FD8, 0x1FD9, 1, 0x1FD0), (0x1FDA, 0x1FDB, 1, 0x1F76), (0x1FE8, 0x1FE9, 1, 0x1FE0),
      (0x1FEA, 0x1FEB, 1, 0x1F7A), (0x1FEC, 0x1FEC, 1, 0x1FE5), (0x1FF8, 0x1FF9, 1, 0x1F78),
      (0x1FFA, 0x1FFB, 1, 0x1F7C), (0x1FFC, 0x1FFC, 1, 0x1FF3), (0x2126, 0x2126, 1, 0x3C9),
      (0x212A, 0x212A, 1, 0x6B), (0x212B, 0x212B, 1, 0xE5), (0x2132, 0x2132, 1, 0x214E),
      (0x2160, 0x216F, 1, 0x2170), (0x2183, 0x2183, 1, 0x2184), (0x24B6, 0x24CF, 1, 0x24D0),
      (0x2C00, 0x2C2F, 1, 0x2C30), (0x2C60, 0x2C60, 1, 0x2C61), (0x2C62, 0x2C62, 1, 0x26B),
      (0x2C63, 0x2C63, 1, 0x1D7D), (0x2C64, 0x2C64, 1, 0x27D), (0x2C67, 0x2C6B, 2, 0x2C68),
      (0x2C6D, 0x2C6D, 1, 0x251), (0x2C6E, 0x2C6E, 1, 0x271), (0x2C6F, 0x2C6F, 1, 0x250),
      (0x2C70, 0x2C70, 1, 0x252), (0x2C72, 0x2C72, 1, 0x2C73), (0x2C75, 0x2C75, 1, 0x2C76),
      (0x2C7E, 0x2C7F, 1, 0x23F), (0x2C80, 0x2CE2, 2, 0x2C81), (0x2CEB, 0x2CED, 2, 0x2CEC),
      (0x2CF2, 0x2CF2, 1, 0x2CF3), (0xA640, 0xA66C, 2, 0xA641), (0xA680, 0xA69A, 2, 0xA681),
      (0xA722, 0xA72E, 2, 0xA723), (0xA732, 0xA76E, 2, 0xA733), (0xA779, 0xA77B, 2, 0xA77A),
      (0xA77D, 0xA77D, 1, 0x1D79), (0xA77E, 0xA786, 2, 0xA77F), (0xA78B, 0xA78B, 1, 0xA78C),
      (0xA78D, 0xA78D, 1, 0x265), (0xA790, 0xA792, 2, 0xA791), (0xA796, 0xA7A8, 2, 0xA797),
      (0xA7AA, 0xA7AA, 1, 0x266), (0xA7AB, 0xA7AB, 1, 0x25C), (0xA7AC, 0xA7AC, 1, 0x261),
      (0xA7AD, 0xA7AD, 1, 0x26C), (0xA7AE, 0xA7AE, 1, 0x26A), (0xA7B0, 0xA7B0, 1, 0x29E),
      (0xA7B1, 0xA7B1, 1, 0x287), (0xA7B2, 0xA7B2, 1, 0x29D), (0xA7B3, 0xA7B3, 1, 0xAB53),
      (0xA7B4, 0xA7C2, 2, 0xA7B5), (0xA7C4, 0xA7C4, 1, 0xA794), (0xA7C5, 0xA7C5, 1, 0x282),
      (0xA7C6, 0xA7C6, 1, 0x1D8E), (0xA7C7, 0xA7C9, 2, 0xA7C8), (0xA7D0, 0xA7D0, 1, 0xA7D1),
      (0xA7D6, 0xA7D8, 2, 0xA7D7), (0xA7F5, 0xA7F5, 1, 0xA7F6), (0xFF21, 0xFF3A, 1, 0xFF41),
      (0x10400, 0x10427, 1, 0x10428), (0x104B0, 0x104D3, 1, 0x104D8),
      (0x10570, 0x10594, 2, 0x10597), (0x10571, 0x10579, 2, 0x10598),
      (0x1057D, 0x10589, 2, 0x105A4), (0x1058D, 0x10591, 2, 0x105B4),
      (0x10595, 0x10595, 1, 0x105BC), (0x10C80, 0x10CB2, 1, 0x10CC0),
      (0x118A0, 0x118BF, 1, 0x118C0), (0x16E40, 0x16E5F, 1, 0x16E60),
      (0x1E900, 0x1E921, 1, 0x1E922)]"

definition upper_table :: "(nat \<times> nat \<times> nat \<times> nat) list" where
  \<comment> \<open>the simple uppercase mappings: first, last, step, image of the first\<close>
  "upper_table =
     [(0x61, 0x7A, 1, 0x41), (0xB5, 0xB5, 1, 0x39C), (0xE0, 0xF6, 1, 0xC0),
      (0xF8, 0xFE, 1, 0xD8), (0xFF, 0xFF, 1, 0x178), (0x101, 0x12F, 2, 0x100),
      (0x131, 0x131, 1, 0x49), (0x133, 0x137, 2, 0x132), (0x13A, 0x148, 2, 0x139),
      (0x14B, 0x177, 2, 0x14A), (0x17A, 0x17E, 2, 0x179), (0x17F, 0x17F, 1, 0x53),
      (0x180, 0x180, 1, 0x243), (0x183, 0x185, 2, 0x182), (0x188, 0x188, 1, 0x187),
      (0x18C, 0x18C, 1, 0x18B), (0x192, 0x192, 1, 0x191), (0x195, 0x195, 1, 0x1F6),
      (0x199, 0x199, 1, 0x198), (0x19A, 0x19A, 1, 0x23D), (0x19E, 0x19E, 1, 0x220),
      (0x1A1, 0x1A5, 2, 0x1A0), (0x1A8, 0x1A8, 1, 0x1A7), (0x1AD, 0x1AD, 1, 0x1AC),
      (0x1B0, 0x1B0, 1, 0x1AF), (0x1B4, 0x1B6, 2, 0x1B3), (0x1B9, 0x1B9, 1, 0x1B8),
      (0x1BD, 0x1BD, 1, 0x1BC), (0x1BF, 0x1BF, 1, 0x1F7), (0x1C5, 0x1C5, 1, 0x1C4),
      (0x1C6, 0x1C6, 1, 0x1C4), (0x1C8, 0x1C8, 1, 0x1C7), (0x1C9, 0x1C9, 1, 0x1C7),
      (0x1CB, 0x1CB, 1, 0x1CA), (0x1CC, 0x1CC, 1, 0x1CA), (0x1CE, 0x1DC, 2, 0x1CD),
      (0x1DD, 0x1DD, 1, 0x18E), (0x1DF, 0x1EF, 2, 0x1DE), (0x1F2, 0x1F2, 1, 0x1F1),
      (0x1F3, 0x1F3, 1, 0x1F1), (0x1F5, 0x1F5, 1, 0x1F4), (0x1F9, 0x21F, 2, 0x1F8),
      (0x223, 0x233, 2, 0x222), (0x23C, 0x23C, 1, 0x23B), (0x23F, 0x240, 1, 0x2C7E),
      (0x242, 0x242, 1, 0x241), (0x247, 0x24F, 2, 0x246), (0x250, 0x250, 1, 0x2C6F),
      (0x251, 0x251, 1, 0x2C6D), (0x252, 0x252, 1, 0x2C70), (0x253, 0x253, 1, 0x181),
      (0x254, 0x254, 1, 0x186), (0x256, 0x257, 1, 0x189), (0x259, 0x259, 1, 0x18F),
      (0x25B, 0x25B, 1, 0x190), (0x25C, 0x25C, 1, 0xA7AB), (0x260, 0x260, 1, 0x193),
      (0x261, 0x261, 1, 0xA7AC), (0x263, 0x263, 1, 0x194), (0x265, 0x265, 1, 0xA78D),
      (0x266, 0x266, 1, 0xA7AA), (0x268, 0x268, 1, 0x197), (0x269, 0x269, 1, 0x196),
      (0x26A, 0x26A, 1, 0xA7AE), (0x26B, 0x26B, 1, 0x2C62), (0x26C, 0x26C, 1, 0xA7AD),
      (0x26F, 0x26F, 1, 0x19C), (0x271, 0x271, 1, 0x2C6E), (0x272, 0x272, 1, 0x19D),
      (0x275, 0x275, 1, 0x19F), (0x27D, 0x27D, 1, 0x2C64), (0x280, 0x280, 1, 0x1A6),
      (0x282, 0x282, 1, 0xA7C5), (0x283, 0x283, 1, 0x1A9), (0x287, 0x287, 1, 0xA7B1),
      (0x288, 0x288, 1, 0x1AE), (0x289, 0x289, 1, 0x244), (0x28A, 0x28B, 1, 0x1B1),
      (0x28C, 0x28C, 1, 0x245), (0x292, 0x292, 1, 0x1B7), (0x29D, 0x29D, 1, 0xA7B2),
      (0x29E, 0x29E, 1, 0xA7B0), (0x345, 0x345, 1, 0x399), (0x371, 0x373, 2, 0x370),
      (0x377, 0x377, 1, 0x376), (0x37B, 0x37D, 1, 0x3FD), (0x3AC, 0x3AC, 1, 0x386),
      (0x3AD, 0x3AF, 1, 0x388), (0x3B1, 0x3C1, 1, 0x391), (0x3C2, 0x3C2, 1, 0x3A3),
      (0x3C3, 0x3CB, 1, 0x3A3), (0x3CC, 0x3CC, 1, 0x38C), (0x3CD, 0x3CE, 1, 0x38E),
      (0x3D0, 0x3D0, 1, 0x392), (0x3D1, 0x3D1, 1, 0x398), (0x3D5, 0x3D5, 1, 0x3A6),
      (0x3D6, 0x3D6, 1, 0x3A0), (0x3D7, 0x3D7, 1, 0x3CF), (0x3D9, 0x3EF, 2, 0x3D8),
      (0x3F0, 0x3F0, 1, 0x39A), (0x3F1, 0x3F1, 1, 0x3A1), (0x3F2, 0x3F2, 1, 0x3F9),
      (0x3F3, 0x3F3, 1, 0x37F), (0x3F5, 0x3F5, 1, 0x395), (0x3F8, 0x3F8, 1, 0x3F7),
      (0x3FB, 0x3FB, 1, 0x3FA), (0x430, 0x44F, 1, 0x410), (0x450, 0x45F, 1, 0x400),
      (0x461, 0x481, 2, 0x460), (0x48B, 0x4BF, 2, 0x48A), (0x4C2, 0x4CE, 2, 0x4C1),
      (0x4CF, 0x4CF, 1, 0x4C0), (0x4D1, 0x52F, 2, 0x4D0), (0x561, 0x586, 1, 0x531),
      (0x10D0, 0x10FA, 1, 0x1C90), (0x10FD, 0x10FF, 1, 0x1CBD), (0x13F8, 0x13FD, 1, 0x13F0),
      (0x1C80, 0x1C80, 1, 0x412), (0x1C81, 0x1C81, 1, 0x414), (0x1C82, 0x1C82, 1, 0x41E),
      (0x1C83, 0x1C84, 1, 0x421), (0x1C85, 0x1C85, 1, 0x422), (0x1C86, 0x1C86, 1, 0x42A),
      (0x1C87, 0x1C87, 1, 0x462), (0x1C88, 0x1C88, 1, 0xA64A), (0x1D79, 0x1D79, 1, 0xA77D),
      (0x1D7D, 0x1D7D, 1, 0x2C63), (0x1D8E, 0x1D8E, 1, 0xA7C6), (0x1E01, 0x1E95, 2, 0x1E00),
      (0x1E9B, 0x1E9B, 1, 0x1E60), (0x1EA1, 0x1EFF, 2, 0x1EA0), (0x1F00, 0x1F07, 1, 0x1F08),
      (0x1F10, 0x1F15, 1, 0x1F18), (0x1F20, 0x1F27, 1, 0x1F28), (0x1F30, 0x1F37, 1, 0x1F38),
      (0x1F40, 0x1F45, 1, 0x1F48), (0x1F51, 0x1F57, 2, 0x1F59), (0x1F60, 0x1F67, 1, 0x1F68),
      (0x1F70, 0x1F71, 1, 0x1FBA), (0x1F72, 0x1F75, 1, 0x1FC8), (0x1F76, 0x1F77, 1, 0x1FDA),
      (0x1F78, 0x1F79, 1, 0x1FF8), (0x1F7A, 0x1F7B, 1, 0x1FEA), (0x1F7C, 0x1F7D, 1, 0x1FFA),
      (0x1FB0, 0x1FB1, 1, 0x1FB8), (0x1FBE, 0x1FBE, 1, 0x399), (0x1FD0, 0x1FD1, 1, 0x1FD8),
      (0x1FE0, 0x1FE1, 1, 0x1FE8), (0x1FE5, 0x1FE5, 1, 0x1FEC), (0x214E, 0x214E, 1, 0x2132),
      (0x2170, 0x217F, 1, 0x2160), (0x2184, 0x2184, 1, 0x2183), (0x24D0, 0x24E9, 1, 0x24B6),
      (0x2C30, 0x2C5F, 1, 0x2C00), (0x2C61, 0x2C61, 1, 0x2C60), (0x2C65, 0x2C65, 1, 0x23A),
      (0x2C66, 0x2C66, 1, 0x23E), (0x2C68, 0x2C6C, 2, 0x2C67), (0x2C73, 0x2C73, 1, 0x2C72),
      (0x2C76, 0x2C76, 1, 0x2C75), (0x2C81, 0x2CE3, 2, 0x2C80), (0x2CEC, 0x2CEE, 2, 0x2CEB),
      (0x2CF3, 0x2CF3, 1, 0x2CF2), (0x2D00, 0x2D25, 1, 0x10A0), (0x2D27, 0x2D27, 1, 0x10C7),
      (0x2D2D, 0x2D2D, 1, 0x10CD), (0xA641, 0xA66D, 2, 0xA640), (0xA681, 0xA69B, 2, 0xA680),
      (0xA723, 0xA72F, 2, 0xA722), (0xA733, 0xA76F, 2, 0xA732), (0xA77A, 0xA77C, 2, 0xA779),
      (0xA77F, 0xA787, 2, 0xA77E), (0xA78C, 0xA78C, 1, 0xA78B), (0xA791, 0xA793, 2, 0xA790),
      (0xA794, 0xA794, 1, 0xA7C4), (0xA797, 0xA7A9, 2, 0xA796), (0xA7B5, 0xA7C3, 2, 0xA7B4),
      (0xA7C8, 0xA7CA, 2, 0xA7C7), (0xA7D1, 0xA7D1, 1, 0xA7D0), (0xA7D7, 0xA7D9, 2, 0xA7D6),
      (0xA7F6, 0xA7F6, 1, 0xA7F5), (0xAB53, 0xAB53, 1, 0xA7B3), (0xAB70, 0xABBF, 1, 0x13A0),
      (0xFF41, 0xFF5A, 1, 0xFF21), (0x10428, 0x1044F, 1, 0x10400),
      (0x104D8, 0x104FB, 1, 0x104B0), (0x10597, 0x105BB, 2, 0x10570),
      (0x10598, 0x105A0, 2, 0x10571), (0x105A4, 0x105B0, 2, 0x1057D),
      (0x105B4, 0x105B8, 2, 0x1058D), (0x105BC, 0x105BC, 1, 0x10595),
      (0x10CC0, 0x10CF2, 1, 0x10C80), (0x118C0, 0x118DF, 1, 0x118A0),
      (0x16E60, 0x16E7F, 1, 0x16E40), (0x1E922, 0x1E943, 1, 0x1E900)]"

definition upper_special :: "(nat \<times> nat list) list" where
  \<comment> \<open>the code points whose uppercase is more than one code point\<close>
  "upper_special =
     [(0xDF, [0x53, 0x53]), (0x149, [0x2BC, 0x4E]), (0x1F0, [0x4A, 0x30C]),
      (0x390, [0x399, 0x308, 0x301]), (0x3B0, [0x3A5, 0x308, 0x301]), (0x587, [0x535, 0x552]),
      (0x1E96, [0x48, 0x331]), (0x1E97, [0x54, 0x308]), (0x1E98, [0x57, 0x30A]),
      (0x1E99, [0x59, 0x30A]), (0x1E9A, [0x41, 0x2BE]), (0x1F50, [0x3A5, 0x313]),
      (0x1F52, [0x3A5, 0x313, 0x300]), (0x1F54, [0x3A5, 0x313, 0x301]),
      (0x1F56, [0x3A5, 0x313, 0x342]), (0x1F80, [0x1F08, 0x399]), (0x1F81, [0x1F09, 0x399]),
      (0x1F82, [0x1F0A, 0x399]), (0x1F83, [0x1F0B, 0x399]), (0x1F84, [0x1F0C, 0x399]),
      (0x1F85, [0x1F0D, 0x399]), (0x1F86, [0x1F0E, 0x399]), (0x1F87, [0x1F0F, 0x399]),
      (0x1F88, [0x1F08, 0x399]), (0x1F89, [0x1F09, 0x399]), (0x1F8A, [0x1F0A, 0x399]),
      (0x1F8B, [0x1F0B, 0x399]), (0x1F8C, [0x1F0C, 0x399]), (0x1F8D, [0x1F0D, 0x399]),
      (0x1F8E, [0x1F0E, 0x399]), (0x1F8F, [0x1F0F, 0x399]), (0x1F90, [0x1F28, 0x399]),
      (0x1F91, [0x1F29, 0x399]), (0x1F92, [0x1F2A, 0x399]), (0x1F93, [0x1F2B, 0x399]),
      (0x1F94, [0x1F2C, 0x399]), (0x1F95, [0x1F2D, 0x399]), (0x1F96, [0x1F2E, 0x399]),
      (0x1F97, [0x1F2F, 0x399]), (0x1F98, [0x1F28, 0x399]), (0x1F99, [0x1F29, 0x399]),
      (0x1F9A, [0x1F2A, 0x399]), (0x1F9B, [0x1F2B, 0x399]), (0x1F9C, [0x1F2C, 0x399]),
      (0x1F9D, [0x1F2D, 0x399]), (0x1F9E, [0x1F2E, 0x399]), (0x1F9F, [0x1F2F, 0x399]),
      (0x1FA0, [0x1F68, 0x399]), (0x1FA1, [0x1F69, 0x399]), (0x1FA2, [0x1F6A, 0x399]),
      (0x1FA3, [0x1F6B, 0x399]), (0x1FA4, [0x1F6C, 0x399]), (0x1FA5, [0x1F6D, 0x399]),
      (0x1FA6, [0x1F6E, 0x399]), (0x1FA7, [0x1F6F, 0x399]), (0x1FA8, [0x1F68, 0x399]),
      (0x1FA9, [0x1F69, 0x399]), (0x1FAA, [0x1F6A, 0x399]), (0x1FAB, [0x1F6B, 0x399]),
      (0x1FAC, [0x1F6C, 0x399]), (0x1FAD, [0x1F6D, 0x399]), (0x1FAE, [0x1F6E, 0x399]),
      (0x1FAF, [0x1F6F, 0x399]), (0x1FB2, [0x1FBA, 0x399]), (0x1FB3, [0x391, 0x399]),
      (0x1FB4, [0x386, 0x399]), (0x1FB6, [0x391, 0x342]), (0x1FB7, [0x391, 0x342, 0x399]),
      (0x1FBC, [0x391, 0x399]), (0x1FC2, [0x1FCA, 0x399]), (0x1FC3, [0x397, 0x399]),
      (0x1FC4, [0x389, 0x399]), (0x1FC6, [0x397, 0x342]), (0x1FC7, [0x397, 0x342, 0x399]),
      (0x1FCC, [0x397, 0x399]), (0x1FD2, [0x399, 0x308, 0x300]),
      (0x1FD3, [0x399, 0x308, 0x301]), (0x1FD6, [0x399, 0x342]),
      (0x1FD7, [0x399, 0x308, 0x342]), (0x1FE2, [0x3A5, 0x308, 0x300]),
      (0x1FE3, [0x3A5, 0x308, 0x301]), (0x1FE4, [0x3A1, 0x313]), (0x1FE6, [0x3A5, 0x342]),
      (0x1FE7, [0x3A5, 0x308, 0x342]), (0x1FF2, [0x1FFA, 0x399]), (0x1FF3, [0x3A9, 0x399]),
      (0x1FF4, [0x38F, 0x399]), (0x1FF6, [0x3A9, 0x342]), (0x1FF7, [0x3A9, 0x342, 0x399]),
      (0x1FFC, [0x3A9, 0x399]), (0xFB00, [0x46, 0x46]), (0xFB01, [0x46, 0x49]),
      (0xFB02, [0x46, 0x4C]), (0xFB03, [0x46, 0x46, 0x49]), (0xFB04, [0x46, 0x46, 0x4C]),
      (0xFB05, [0x53, 0x54]), (0xFB06, [0x53, 0x54]), (0xFB13, [0x544, 0x546]),
      (0xFB14, [0x544, 0x535]), (0xFB15, [0x544, 0x53B]), (0xFB16, [0x54E, 0x546]),
      (0xFB17, [0x544, 0x53D])]"

definition case_ignorable_ranges :: "(nat \<times> nat) list" where
  \<comment> \<open>the code points with the property Case_Ignorable\<close>
  "case_ignorable_ranges =
     [(0x27, 0x27), (0x2E, 0x2E), (0x3A, 0x3A), (0x5E, 0x5E), (0x60, 0x60), (0xA8, 0xA8),
      (0xAD, 0xAD), (0xAF, 0xAF), (0xB4, 0xB4), (0xB7, 0xB8), (0x2B0, 0x36F), (0x374, 0x375),
      (0x37A, 0x37A), (0x384, 0x385), (0x387, 0x387), (0x483, 0x489), (0x559, 0x559),
      (0x55F, 0x55F), (0x591, 0x5BD), (0x5BF, 0x5BF), (0x5C1, 0x5C2), (0x5C4, 0x5C5),
      (0x5C7, 0x5C7), (0x5F4, 0x5F4), (0x600, 0x605), (0x610, 0x61A), (0x61C, 0x61C),
      (0x640, 0x640), (0x64B, 0x65F), (0x670, 0x670), (0x6D6, 0x6DD), (0x6DF, 0x6E8),
      (0x6EA, 0x6ED), (0x70F, 0x70F), (0x711, 0x711), (0x730, 0x74A), (0x7A6, 0x7B0),
      (0x7EB, 0x7F5), (0x7FA, 0x7FA), (0x7FD, 0x7FD), (0x816, 0x82D), (0x859, 0x85B),
      (0x888, 0x888), (0x890, 0x891), (0x898, 0x89F), (0x8C9, 0x902), (0x93A, 0x93A),
      (0x93C, 0x93C), (0x941, 0x948), (0x94D, 0x94D), (0x951, 0x957), (0x962, 0x963),
      (0x971, 0x971), (0x981, 0x981), (0x9BC, 0x9BC), (0x9C1, 0x9C4), (0x9CD, 0x9CD),
      (0x9E2, 0x9E3), (0x9FE, 0x9FE), (0xA01, 0xA02), (0xA3C, 0xA3C), (0xA41, 0xA42),
      (0xA47, 0xA48), (0xA4B, 0xA4D), (0xA51, 0xA51), (0xA70, 0xA71), (0xA75, 0xA75),
      (0xA81, 0xA82), (0xABC, 0xABC), (0xAC1, 0xAC5), (0xAC7, 0xAC8), (0xACD, 0xACD),
      (0xAE2, 0xAE3), (0xAFA, 0xAFF), (0xB01, 0xB01), (0xB3C, 0xB3C), (0xB3F, 0xB3F),
      (0xB41, 0xB44), (0xB4D, 0xB4D), (0xB55, 0xB56), (0xB62, 0xB63), (0xB82, 0xB82),
      (0xBC0, 0xBC0), (0xBCD, 0xBCD), (0xC00, 0xC00), (0xC04, 0xC04), (0xC3C, 0xC3C),
      (0xC3E, 0xC40), (0xC46, 0xC48), (0xC4A, 0xC4D), (0xC55, 0xC56), (0xC62, 0xC63),
      (0xC81, 0xC81), (0xCBC, 0xCBC), (0xCBF, 0xCBF), (0xCC6, 0xCC6), (0xCCC, 0xCCD),
      (0xCE2, 0xCE3), (0xD00, 0xD01), (0xD3B, 0xD3C), (0xD41, 0xD44), (0xD4D, 0xD4D),
      (0xD62, 0xD63), (0xD81, 0xD81), (0xDCA, 0xDCA), (0xDD2, 0xDD4), (0xDD6, 0xDD6),
      (0xE31, 0xE31), (0xE34, 0xE3A), (0xE46, 0xE4E), (0xEB1, 0xEB1), (0xEB4, 0xEBC),
      (0xEC6, 0xEC6), (0xEC8, 0xECD), (0xF18, 0xF19), (0xF35, 0xF35), (0xF37, 0xF37),
      (0xF39, 0xF39), (0xF71, 0xF7E), (0xF80, 0xF84), (0xF86, 0xF87), (0xF8D, 0xF97),
      (0xF99, 0xFBC), (0xFC6, 0xFC6), (0x102D, 0x1030), (0x1032, 0x1037), (0x1039, 0x103A),
      (0x103D, 0x103E), (0x1058, 0x1059), (0x105E, 0x1060), (0x1071, 0x1074), (0x1082, 0x1082),
      (0x1085, 0x1086), (0x108D, 0x108D), (0x109D, 0x109D), (0x10FC, 0x10FC), (0x135D, 0x135F),
      (0x1712, 0x1714), (0x1732, 0x1733), (0x1752, 0x1753), (0x1772, 0x1773), (0x17B4, 0x17B5),
      (0x17B7, 0x17BD), (0x17C6, 0x17C6), (0x17C9, 0x17D3), (0x17D7, 0x17D7), (0x17DD, 0x17DD),
      (0x180B, 0x180F), (0x1843, 0x1843), (0x1885, 0x1886), (0x18A9, 0x18A9), (0x1920, 0x1922),
      (0x1927, 0x1928), (0x1932, 0x1932), (0x1939, 0x193B), (0x1A17, 0x1A18), (0x1A1B, 0x1A1B),
      (0x1A56, 0x1A56), (0x1A58, 0x1A5E), (0x1A60, 0x1A60), (0x1A62, 0x1A62), (0x1A65, 0x1A6C),
      (0x1A73, 0x1A7C), (0x1A7F, 0x1A7F), (0x1AA7, 0x1AA7), (0x1AB0, 0x1ACE), (0x1B00, 0x1B03),
      (0x1B34, 0x1B34), (0x1B36, 0x1B3A), (0x1B3C, 0x1B3C), (0x1B42, 0x1B42), (0x1B6B, 0x1B73),
      (0x1B80, 0x1B81), (0x1BA2, 0x1BA5), (0x1BA8, 0x1BA9), (0x1BAB, 0x1BAD), (0x1BE6, 0x1BE6),
      (0x1BE8, 0x1BE9), (0x1BED, 0x1BED), (0x1BEF, 0x1BF1), (0x1C2C, 0x1C33), (0x1C36, 0x1C37),
      (0x1C78, 0x1C7D), (0x1CD0, 0x1CD2), (0x1CD4, 0x1CE0), (0x1CE2, 0x1CE8), (0x1CED, 0x1CED),
      (0x1CF4, 0x1CF4), (0x1CF8, 0x1CF9), (0x1D2C, 0x1D6A), (0x1D78, 0x1D78), (0x1D9B, 0x1DFF),
      (0x1FBD, 0x1FBD), (0x1FBF, 0x1FC1), (0x1FCD, 0x1FCF), (0x1FDD, 0x1FDF), (0x1FED, 0x1FEF),
      (0x1FFD, 0x1FFE), (0x200B, 0x200F), (0x2018, 0x2019), (0x2024, 0x2024), (0x2027, 0x2027),
      (0x202A, 0x202E), (0x2060, 0x2064), (0x2066, 0x206F), (0x2071, 0x2071), (0x207F, 0x207F),
      (0x2090, 0x209C), (0x20D0, 0x20F0), (0x2C7C, 0x2C7D), (0x2CEF, 0x2CF1), (0x2D6F, 0x2D6F),
      (0x2D7F, 0x2D7F), (0x2DE0, 0x2DFF), (0x2E2F, 0x2E2F), (0x3005, 0x3005), (0x302A, 0x302D),
      (0x3031, 0x3035), (0x303B, 0x303B), (0x3099, 0x309E), (0x30FC, 0x30FE), (0xA015, 0xA015),
      (0xA4F8, 0xA4FD), (0xA60C, 0xA60C), (0xA66F, 0xA672), (0xA674, 0xA67D), (0xA67F, 0xA67F),
      (0xA69C, 0xA69F), (0xA6F0, 0xA6F1), (0xA700, 0xA721), (0xA770, 0xA770), (0xA788, 0xA78A),
      (0xA7F2, 0xA7F4), (0xA7F8, 0xA7F9), (0xA802, 0xA802), (0xA806, 0xA806), (0xA80B, 0xA80B),
      (0xA825, 0xA826), (0xA82C, 0xA82C), (0xA8C4, 0xA8C5), (0xA8E0, 0xA8F1), (0xA8FF, 0xA8FF),
      (0xA926, 0xA92D), (0xA947, 0xA951), (0xA980, 0xA982), (0xA9B3, 0xA9B3), (0xA9B6, 0xA9B9),
      (0xA9BC, 0xA9BD), (0xA9CF, 0xA9CF), (0xA9E5, 0xA9E6), (0xAA29, 0xAA2E), (0xAA31, 0xAA32),
      (0xAA35, 0xAA36), (0xAA43, 0xAA43), (0xAA4C, 0xAA4C), (0xAA70, 0xAA70), (0xAA7C, 0xAA7C),
      (0xAAB0, 0xAAB0), (0xAAB2, 0xAAB4), (0xAAB7, 0xAAB8), (0xAABE, 0xAABF), (0xAAC1, 0xAAC1),
      (0xAADD, 0xAADD), (0xAAEC, 0xAAED), (0xAAF3, 0xAAF4), (0xAAF6, 0xAAF6), (0xAB5B, 0xAB5F),
      (0xAB69, 0xAB6B), (0xABE5, 0xABE5), (0xABE8, 0xABE8), (0xABED, 0xABED), (0xFB1E, 0xFB1E),
      (0xFBB2, 0xFBC2), (0xFE00, 0xFE0F), (0xFE13, 0xFE13), (0xFE20, 0xFE2F), (0xFE52, 0xFE52),
      (0xFE55, 0xFE55), (0xFEFF, 0xFEFF), (0xFF07, 0xFF07), (0xFF0E, 0xFF0E), (0xFF1A, 0xFF1A),
      (0xFF3E, 0xFF3E), (0xFF40, 0xFF40), (0xFF70, 0xFF70), (0xFF9E, 0xFF9F), (0xFFE3, 0xFFE3),
      (0xFFF9, 0xFFFB), (0x101FD, 0x101FD), (0x102E0, 0x102E0), (0x10376, 0x1037A),
      (0x10780, 0x10785), (0x10787, 0x107B0), (0x107B2, 0x107BA), (0x10A01, 0x10A03),
      (0x10A05, 0x10A06), (0x10A0C, 0x10A0F), (0x10A38, 0x10A3A), (0x10A3F, 0x10A3F),
      (0x10AE5, 0x10AE6), (0x10D24, 0x10D27), (0x10EAB, 0x10EAC), (0x10F46, 0x10F50),
      (0x10F82, 0x10F85), (0x11001, 0x11001), (0x11038, 0x11046), (0x11070, 0x11070),
      (0x11073, 0x11074), (0x1107F, 0x11081), (0x110B3, 0x110B6), (0x110B9, 0x110BA),
      (0x110BD, 0x110BD), (0x110C2, 0x110C2), (0x110CD, 0x110CD), (0x11100, 0x11102),
      (0x11127, 0x1112B), (0x1112D, 0x11134), (0x11173, 0x11173), (0x11180, 0x11181),
      (0x111B6, 0x111BE), (0x111C9, 0x111CC), (0x111CF, 0x111CF), (0x1122F, 0x11231),
      (0x11234, 0x11234), (0x11236, 0x11237), (0x1123E, 0x1123E), (0x112DF, 0x112DF),
      (0x112E3, 0x112EA), (0x11300, 0x11301), (0x1133B, 0x1133C), (0x11340, 0x11340),
      (0x11366, 0x1136C), (0x11370, 0x11374), (0x11438, 0x1143F), (0x11442, 0x11444),
      (0x11446, 0x11446), (0x1145E, 0x1145E), (0x114B3, 0x114B8), (0x114BA, 0x114BA),
      (0x114BF, 0x114C0), (0x114C2, 0x114C3), (0x115B2, 0x115B5), (0x115BC, 0x115BD),
      (0x115BF, 0x115C0), (0x115DC, 0x115DD), (0x11633, 0x1163A), (0x1163D, 0x1163D),
      (0x1163F, 0x11640), (0x116AB, 0x116AB), (0x116AD, 0x116AD), (0x116B0, 0x116B5),
      (0x116B7, 0x116B7), (0x1171D, 0x1171F), (0x11722, 0x11725), (0x11727, 0x1172B),
      (0x1182F, 0x11837), (0x11839, 0x1183A), (0x1193B, 0x1193C), (0x1193E, 0x1193E),
      (0x11943, 0x11943), (0x119D4, 0x119D7), (0x119DA, 0x119DB), (0x119E0, 0x119E0),
      (0x11A01, 0x11A0A), (0x11A33, 0x11A38), (0x11A3B, 0x11A3E), (0x11A47, 0x11A47),
      (0x11A51, 0x11A56), (0x11A59, 0x11A5B), (0x11A8A, 0x11A96), (0x11A98, 0x11A99),
      (0x11C30, 0x11C36), (0x11C38, 0x11C3D), (0x11C3F, 0x11C3F), (0x11C92, 0x11CA7),
      (0x11CAA, 0x11CB0), (0x11CB2, 0x11CB3), (0x11CB5, 0x11CB6), (0x11D31, 0x11D36),
      (0x11D3A, 0x11D3A), (0x11D3C, 0x11D3D), (0x11D3F, 0x11D45), (0x11D47, 0x11D47),
      (0x11D90, 0x11D91), (0x11D95, 0x11D95), (0x11D97, 0x11D97), (0x11EF3, 0x11EF4),
      (0x13430, 0x13438), (0x16AF0, 0x16AF4), (0x16B30, 0x16B36), (0x16B40, 0x16B43),
      (0x16F4F, 0x16F4F), (0x16F8F, 0x16F9F), (0x16FE0, 0x16FE1), (0x16FE3, 0x16FE4),
      (0x1AFF0, 0x1AFF3), (0x1AFF5, 0x1AFFB), (0x1AFFD, 0x1AFFE), (0x1BC9D, 0x1BC9E),
      (0x1BCA0, 0x1BCA3), (0x1CF00, 0x1CF2D), (0x1CF30, 0x1CF46), (0x1D167, 0x1D169),
      (0x1D173, 0x1D182), (0x1D185, 0x1D18B), (0x1D1AA, 0x1D1AD), (0x1D242, 0x1D244),
      (0x1DA00, 0x1DA36), (0x1DA3B, 0x1DA6C), (0x1DA75, 0x1DA75), (0x1DA84, 0x1DA84),
      (0x1DA9B, 0x1DA9F), (0x1DAA1, 0x1DAAF), (0x1E000, 0x1E006), (0x1E008, 0x1E018),
      (0x1E01B, 0x1E021), (0x1E023, 0x1E024), (0x1E026, 0x1E02A), (0x1E130, 0x1E13D),
      (0x1E2AE, 0x1E2AE), (0x1E2EC, 0x1E2EF), (0x1E8D0, 0x1E8D6), (0x1E944, 0x1E94B),
      (0x1F3FB, 0x1F3FF), (0xE0001, 0xE0001), (0xE0020, 0xE007F), (0xE0100, 0xE01EF)]"

definition cased_ranges :: "(nat \<times> nat) list" where
  \<comment> \<open>the code points with the property Cased that are not Case_Ignorable\<close>
  "cased_ranges =
     [(0x41, 0x5A), (0x61, 0x7A), (0xAA, 0xAA), (0xB5, 0xB5), (0xBA, 0xBA), (0xC0, 0xD6),
      (0xD8, 0xF6), (0xF8, 0x1BA), (0x1BC, 0x1BF), (0x1C4, 0x293), (0x295, 0x2AF),
      (0x370, 0x373), (0x376, 0x377), (0x37B, 0x37D), (0x37F, 0x37F), (0x386, 0x386),
      (0x388, 0x38A), (0x38C, 0x38C), (0x38E, 0x3A1), (0x3A3, 0x3F5), (0x3F7, 0x481),
      (0x48A, 0x52F), (0x531, 0x556), (0x560, 0x588), (0x10A0, 0x10C5), (0x10C7, 0x10C7),
      (0x10CD, 0x10CD), (0x10D0, 0x10FA), (0x10FD, 0x10FF), (0x13A0, 0x13F5), (0x13F8, 0x13FD),
      (0x1C80, 0x1C88), (0x1C90, 0x1CBA), (0x1CBD, 0x1CBF), (0x1D00, 0x1D2B), (0x1D6B, 0x1D77),
      (0x1D79, 0x1D9A), (0x1E00, 0x1F15), (0x1F18, 0x1F1D), (0x1F20, 0x1F45), (0x1F48, 0x1F4D),
      (0x1F50, 0x1F57), (0x1F59, 0x1F59), (0x1F5B, 0x1F5B), (0x1F5D, 0x1F5D), (0x1F5F, 0x1F7D),
      (0x1F80, 0x1FB4), (0x1FB6, 0x1FBC), (0x1FBE, 0x1FBE), (0x1FC2, 0x1FC4), (0x1FC6, 0x1FCC),
      (0x1FD0, 0x1FD3), (0x1FD6, 0x1FDB), (0x1FE0, 0x1FEC), (0x1FF2, 0x1FF4), (0x1FF6, 0x1FFC),
      (0x2102, 0x2102), (0x2107, 0x2107), (0x210A, 0x2113), (0x2115, 0x2115), (0x2119, 0x211D),
      (0x2124, 0x2124), (0x2126, 0x2126), (0x2128, 0x2128), (0x212A, 0x212D), (0x212F, 0x2134),
      (0x2139, 0x2139), (0x213C, 0x213F), (0x2145, 0x2149), (0x214E, 0x214E), (0x2160, 0x217F),
      (0x2183, 0x2184), (0x24B6, 0x24E9), (0x2C00, 0x2C7B), (0x2C7E, 0x2CE4), (0x2CEB, 0x2CEE),
      (0x2CF2, 0x2CF3), (0x2D00, 0x2D25), (0x2D27, 0x2D27), (0x2D2D, 0x2D2D), (0xA640, 0xA66D),
      (0xA680, 0xA69B), (0xA722, 0xA76F), (0xA771, 0xA787), (0xA78B, 0xA78E), (0xA790, 0xA7CA),
      (0xA7D0, 0xA7D1), (0xA7D3, 0xA7D3), (0xA7D5, 0xA7D9), (0xA7F5, 0xA7F6), (0xA7FA, 0xA7FA),
      (0xAB30, 0xAB5A), (0xAB60, 0xAB68), (0xAB70, 0xABBF), (0xFB00, 0xFB06), (0xFB13, 0xFB17),
      (0xFF21, 0xFF3A), (0xFF41, 0xFF5A), (0x10400, 0x1044F), (0x104B0, 0x104D3),
      (0x104D8, 0x104FB), (0x10570, 0x1057A), (0x1057C, 0x1058A), (0x1058C, 0x10592),
      (0x10594, 0x10595), (0x10597, 0x105A1), (0x105A3, 0x105B1), (0x105B3, 0x105B9),
      (0x105BB, 0x105BC), (0x10C80, 0x10CB2), (0x10CC0, 0x10CF2), (0x118A0, 0x118DF),
      (0x16E40, 0x16E7F), (0x1D400, 0x1D454), (0x1D456, 0x1D49C), (0x1D49E, 0x1D49F),
      (0x1D4A2, 0x1D4A2), (0x1D4A5, 0x1D4A6), (0x1D4A9, 0x1D4AC), (0x1D4AE, 0x1D4B9),
      (0x1D4BB, 0x1D4BB), (0x1D4BD, 0x1D4C3), (0x1D4C5, 0x1D505), (0x1D507, 0x1D50A),
      (0x1D50D, 0x1D514), (0x1D516, 0x1D51C), (0x1D51E, 0x1D539), (0x1D53B, 0x1D53E),
      (0x1D540, 0x1D544), (0x1D546, 0x1D546), (0x1D54A, 0x1D550), (0x1D552, 0x1D6A5),
      (0x1D6A8, 0x1D6C0), (0x1D6C2, 0x1D6DA), (0x1D6DC, 0x1D6FA), (0x1D6FC, 0x1D714),
      (0x1D716, 0x1D734), (0x1D736, 0x1D74E), (0x1D750, 0x1D76E), (0x1D770, 0x1D788),
      (0x1D78A, 0x1D7A8), (0x1D7AA, 0x1D7C2), (0x1D7C4, 0x1D7CB), (0x1DF00, 0x1DF09),
      (0x1DF0B, 0x1DF1E), (0x1E900, 0x1E943), (0x1F130, 0x1F149), (0x1F150, 0x1F169),
      (0x1F170, 0x1F189)]"

definition in_ranges :: "nat \<Rightarrow> (nat \<times> nat) list \<Rightarrow> bool" where
  "in_ranges c ranges = list_ex (\<lambda>(a, z). a \<le> c \<and> c \<le> z) ranges"

definition mapped :: "(nat \<times> nat \<times> nat \<times> nat) list \<Rightarrow> nat \<Rightarrow> nat option" where
  "mapped table c =
     map_option (\<lambda>(a, z, step, a'). a' + (c - a))
       (List.find (\<lambda>(a, z, step, a').
                     a \<le> c \<and> c \<le> z \<and> (c - a) mod step = 0) table)"

fun followed_by_cased :: "symbol list \<Rightarrow> bool" where
  \<comment> \<open>after any number of case-ignorable code points comes a cased letter; read on the
      reversed text before a code point, it says that a cased letter precedes\<close>
  "followed_by_cased [] = False"
| "followed_by_cased (Stray b # rest) = False"
| "followed_by_cased (Point c # rest) =
     (if in_ranges c case_ignorable_ranges then followed_by_cased rest
      else in_ranges c cased_ranges)"

definition lower_symbol :: "symbol list \<Rightarrow> symbol \<Rightarrow> symbol list \<Rightarrow> symbol list" where
  \<comment> \<open>the lower case of a code point between the (reversed) text before it and the text
      after it\<close>
  "lower_symbol before u after =
     (case u of
        Stray b \<Rightarrow> [u]
      | Point c \<Rightarrow>
          if c = 0x3A3 then
            (if followed_by_cased before \<and> \<not> followed_by_cased after
             then [Point 0x3C2] else [Point 0x3C3])
          else if c = 0x130 then [Point 0x69, Point 0x307]
          else [Point (case mapped lower_table c of Some l \<Rightarrow> l | None \<Rightarrow> c)])"

fun lower_symbols :: "symbol list \<Rightarrow> symbol list \<Rightarrow> symbol list" where
  "lower_symbols before [] = []"
| "lower_symbols before (u # after) =
     lower_symbol before u after @ lower_symbols (u # before) after"

definition toLowerCase :: "string \<Rightarrow> string" where
  "toLowerCase s = concat (map bytes (lower_symbols [] (symbols s)))"

definition upper_symbol :: "symbol \<Rightarrow> symbol list" where
  "upper_symbol u =
     (case u of
        Stray b \<Rightarrow> [u]
      | Point c \<Rightarrow>
          (case map_of upper_special c of
             Some cs \<Rightarrow> map Point cs
           | None \<Rightarrow> [Point (case mapped upper_table c of Some l \<Rightarrow> l | None \<Rightarrow> c)]))"

definition toUpperCase :: "string \<Rightarrow> string" where
  "toUpperCase s = concat (map bytes (concat (map upper_symbol (symbols s))))"

subsection \<open>The operations on strings that the handlers use\<close>

text \<open>
  A property that may be missing from the arguments object is an \<open>option\<close>; \<open>None\<close> is
  JavaScript's \<open>undefined\<close>. The arguments of a request are taken at their declared
  schema types: a string property is a string or missing, a boolean property a boolean or
  missing. A number is represented by its rendering \<open>String(n)\<close>, the only thing the
  handlers do with it.
\<close>

definition template :: "string option \<Rightarrow> string" where
  \<comment> \<open>\<open>${x}\<close> inside a template literal, and \<open>String(x)\<close>\<close>
  "template x = (case x of None \<Rightarrow> ''undefined'' | Some s \<Rightarrow> s)"

definition truthy :: "string option \<Rightarrow> bool" where
  \<comment> \<open>\<open>if (x)\<close>: a missing property and the empty string are falsy\<close>
  "truthy x = (case x of None \<Rightarrow> False | Some s \<Rightarrow> s \<noteq> [])"

definition js_or :: "string option \<Rightarrow> string option \<Rightarrow> string option" where
  \<comment> \<open>\<open>a || b\<close>\<close>
  "js_or a b = (if truthy a then a else b)"

fun js_split :: "char \<Rightarrow> string \<Rightarrow> string list" where
  \<comment> \<open>\<open>s.split(d)\<close> for a one-character separator: never the empty list\<close>
  "js_split d [] = [] # []"
| "js_split d (c # cs) =
     (if c = d then [] # js_split d cs
      else (case js_split d cs of [] \<Rightarrow> [c] # [] | t # ts \<Rightarrow> (c # t) # ts))"

definition white_space :: "string list" where
  \<comment> \<open>the UTF-8 encodings of ECMAScript's WhiteSpace and LineTerminator code points:
      U+0009..U+000D, U+0020, U+00A0, U+1680, U+2000..U+200A, U+2028, U+2029, U+202F,
      U+205F, U+3000, U+FEFF\<close>
  "white_space =
     [CHR 0x09] # [CHR 0x0A] # [CHR 0x0B] # [CHR 0x0C] # [CHR 0x0D] # [CHR 0x20] #
     [CHR 0xC2, CHR 0xA0] # [CHR 0xE1, CHR 0x9A, CHR 0x80] #
     [CHR 0xE2, CHR 0x80, CHR 0x80] # [CHR 0xE2, CHR 0x80, CHR 0x81] #
     [CHR 0xE2, CHR 0x80, CHR 0x82] # [CHR 0xE2, CHR 0x80, CHR 0x83] #
     [CHR 0xE2, CHR 0x80, CHR 0x84] # [CHR 0xE2, CHR 0x80, CHR 0x85] #
     [CHR 0xE2, CHR 0x80, CHR 0x86] # [CHR 0xE2, CHR 0x80, CHR 0x87] #
     [CHR 0xE2, CHR 0x80, CHR 0x88] # [CHR 0xE2, CHR 0x80, CHR 0x89] #
     [CHR 0xE2, CHR 0x80, CHR 0x8A] # [CHR 0xE2, CHR 0x80, CHR 0xA8] #
     [CHR 0xE2, CHR 0x80, CHR 0xA9] # [CHR 0xE2, CHR 0x80, CHR 0xAF] #
     [CHR 0xE2, CHR 0x81, CHR 0x9F] # [CHR 0xE3, CHR 0x80, CHR 0x80] #
     [CHR 0xEF, CHR 0xBB, CHR 0xBF] # []"

function trimStart :: "string \<Rightarrow> string" where
  "trimStart s =
     (case List.find (\<lambda>w. prefix w s) white_space of
        None \<Rightarrow> s
      | Some w \<Rightarrow> trimStart (drop (length w) s))"
  by pat_completeness auto
termination
proof (relation "measure length")
  show "wf (measure length)" by simp
next
  fix s w
  assume "List.find (\<lambda>w. prefix w s) white_space = Some w"
  then have "w \<in> set white_space" and "prefix w s"
    by (auto simp: find_Some_iff)
  then have "w \<noteq> []" and "length w \<le> length s"
    by (auto simp: white_space_def prefix_length_le)
  then show "(drop (length w) s, s) \<in> measure length"
    by (cases w) auto
qed

function trimEnd :: "string \<Rightarrow> string" where
  "trimEnd s =
     (case List.find (\<lambda>w. suffix w s) white_space of
        None \<Rightarrow> s
      | Some w \<Rightarrow> trimEnd (take (length s - length w) s))"
  by pat_completeness auto
termination
proof (relation "measure length")
  show "wf (measure length)" by simp
next
  fix s w
  assume "List.find (\<lambda>w. suffix w s) white_space = Some w"
  then have "w \<in> set white_space" and "suffix w s"
    by (auto simp: find_Some_iff)
  then have "w \<noteq> []" and "length w \<le> length s"
    by (auto simp: white_space_def suffix_length_le)
  then show "(take (length s - length w) s, s) \<in> measure length"
    by (cases w) auto
qed

declare trimStart.simps [simp del] trimEnd.simps [simp del]

definition trim :: "string \<Rightarrow> string" where
  \<comment> \<open>\<open>s.trim()\<close>\<close>
  "trim s = trimEnd (trimStart s)"

definition slice_0_minus2 :: "string \<Rightarrow> string" where
  \<comment> \<open>\<open>s.slice(0, -2)\<close>\<close>
  "slice_0_minus2 s = take (length s - 2) s"

definition uri_unreserved :: "char \<Rightarrow> bool" where
  \<comment> \<open>the characters \<open>encodeURIComponent\<close> leaves alone:
      \<open>A-Z a-z 0-9 - _ . ! ~ * ' ( )\<close>\<close>
  "uri_unreserved c =
     (c \<in> set (''ABCDEFGHIJKLMNOPQRSTUVWXYZ'' @ ''abcdefghijklmnopqrstuvwxyz''
               @ ''0123456789'' @ ''-_.!~*()'' @ [CHR 0x27]))"

definition hex_digit :: "nat \<Rightarrow> char" where
  "hex_digit n = ''0123456789ABCDEF'' ! (n mod 16)"

definition percent_encode :: "char \<Rightarrow> string" where
  "percent_encode c =
     [CHR ''%'', hex_digit ((of_char c :: nat) div 16), hex_digit ((of_char c :: nat) mod 16)]"

definition encodeURIComponent :: "string \<Rightarrow> string option" where
  \<comment> \<open>every byte of the UTF-8 encoding that is not unreserved becomes \<open>%XX\<close>; a string
      with a surrogate that has no partner has no UTF-8 encoding, and the function throws
      a URIError (\<open>None\<close>)\<close>
  "encodeURIComponent s =
     (if list_ex lone_surrogate (symbols s) then None
      else Some (concat (map (\<lambda>c. if uri_unreserved c then [c] else percent_encode c) s)))"

function decimal :: "nat \<Rightarrow> string" where
  \<comment> \<open>\<open>String(n)\<close> for a small whole number\<close>
  "decimal n =
     (if n < 10 then [''0123456789'' ! n] else decimal (n div 10) @ [''0123456789'' ! (n mod 10)])"
  by pat_completeness auto
termination
  by (relation "measure id") auto

declare decimal.simps [simp del]

subsection \<open>Property lookup in an object literal\<close>

text \<open>
  \<open>table[key]\<close> on an object literal finds the literal's own properties and, failing
  that, the properties every object inherits from \<open>Object.prototype\<close>. An inherited
  value is a function (or, for \<open>__proto__\<close>, the prototype object): it is truthy and not a
  string. It is kept as the name of the property; where the code turns it into a string
  the model shows the rendering as the engine prints it, also where the code hands the
  value on as it is.
\<close>

datatype property = Own string | Inherited string | Absent

definition object_prototype :: "string list" where
  \<comment> \<open>the names of the properties of \<open>Object.prototype\<close>\<close>
  "object_prototype =
     [''constructor'', ''__defineGetter__'', ''__defineSetter__'', ''hasOwnProperty'',
      ''__lookupGetter__'', ''__lookupSetter__'', ''isPrototypeOf'', ''propertyIsEnumerable'',
      ''toString'', ''valueOf'', ''__proto__'', ''toLocaleString'']"

definition function_name :: "string \<Rightarrow> string" where
  \<comment> \<open>the \<open>name\<close> of the function that is the value of an inherited property\<close>
  "function_name p = (if p = ''constructor'' then ''Object'' else p)"

definition native_string :: "string \<Rightarrow> string" where
  \<comment> \<open>\<open>String(v)\<close> for the value of an inherited property\<close>
  "native_string p =
     (if p = ''__proto__'' then ''[object Object]''
      else ''function '' @ function_name p @ ''() { [native code] }'')"

definition get_prop :: "(string \<times> string) list \<Rightarrow> string option \<Rightarrow> property" where
  \<comment> \<open>\<open>table[key]\<close>; a missing key is the property name \<open>undefined\<close>\<close>
  "get_prop table key =
     (case map_of table (template key) of
        Some v \<Rightarrow> Own v
      | None \<Rightarrow> (if template key \<in> set object_prototype then Inherited (template key)
                 else Absent))"

definition property_truthy :: "property \<Rightarrow> bool" where
  "property_truthy p = (case p of Own v \<Rightarrow> v \<noteq> [] | Inherited q \<Rightarrow> True | Absent \<Rightarrow> False)"

definition property_string :: "property \<Rightarrow> string" where
  \<comment> \<open>the property's value converted to a string, as concatenation and templates do\<close>
  "property_string p =
     (case p of Own v \<Rightarrow> v | Inherited q \<Rightarrow> native_string q | Absent \<Rightarrow> ''undefined'')"

subsection \<open>JSON values\<close>

text \<open>
  The values \<open>JSON.parse\<close> and \<open>response.json()\<close> return. A number is kept as its rendering
  \<open>String(n)\<close>; an object as its own properties in the order the engine enumerates them.
\<close>

datatype json =
    JNull | JBool bool | JNumber string | JString string
  | JArray "json list" | JObject "(string \<times> json) list"

definition json_truthy :: "json option \<Rightarrow> bool" where
  "json_truthy v =
     (case v of
        None \<Rightarrow> False
      | Some JNull \<Rightarrow> False
      | Some (JBool b) \<Rightarrow> b
      | Some (JNumber r) \<Rightarrow> r \<noteq> ''0''
      | Some (JString s) \<Rightarrow> s \<noteq> []
      | Some (JArray xs) \<Rightarrow> True
      | Some (JObject ps) \<Rightarrow> True)"

definition json_or :: "json option \<Rightarrow> json option \<Rightarrow> json option" where
  \<comment> \<open>\<open>a || b\<close>\<close>
  "json_or a b = (if json_truthy a then a else b)"

definition json_member :: "json \<Rightarrow> string \<Rightarrow> json option" where
  \<comment> \<open>\<open>v[p]\<close> for a value that is not \<open>null\<close> and a property name that no prototype
      defines\<close>
  "json_member v p = (case v of JObject ps \<Rightarrow> map_of ps p | _ \<Rightarrow> None)"

text \<open>
  \<open>String(v)\<close>. An array is the renderings of its elements joined by commas, \<open>null\<close>
  elements being empty. An object is \<open>[object Object]\<close>, unless it has a property
  \<open>toString\<close> of its own: that one is no function, \<open>valueOf\<close> returns no primitive, and
  the conversion throws a TypeError (\<open>None\<close>).
\<close>

fun json_string :: "json \<Rightarrow> string option"
  and json_join :: "json list \<Rightarrow> string option" where
  "json_string JNull = Some ''null''"
| "json_string (JBool b) = Some (if b then ''true'' else ''false'')"
| "json_string (JNumber r) = Some r"
| "json_string (JString s) = Some s"
| "json_string (JArray xs) = json_join xs"
| "json_string (JObject ps) =
     (if ''toString'' \<in> fst ` set ps then None else Some ''[object Object]'')"
| "json_join [] = Some ''''"
| "json_join (x # xs) =
     (case (if x = JNull then Some '''' else json_string x) of
        None \<Rightarrow> None
      | Some s \<Rightarrow>
          (if xs = [] then Some s
           else (case json_join xs of None \<Rightarrow> None | Some t \<Rightarrow> Some (s @ '','' @ t))))"

definition json_template :: "json option \<Rightarrow> string option" where
  \<comment> \<open>\<open>${v}\<close>\<close>
  "json_template v = (case v of None \<Rightarrow> Some ''undefined'' | Some j \<Rightarrow> json_string j)"

text \<open>
  \<open>JSON.stringify(v, null, 2)\<close>. A string is quoted with the escapes of
  \<open>QuoteJSONString\<close>; a number that is not finite is \<open>null\<close>.
\<close>

definition lower_hex :: "nat \<Rightarrow> char" where
  "lower_hex n = ''0123456789abcdef'' ! (n mod 16)"

definition unicode_escape :: "nat \<Rightarrow> string" where
  \<comment> \<open>\<open>\uXXXX\<close>\<close>
  "unicode_escape c =
     [CHR 0x5C, CHR ''u'', lower_hex (c div 4096), lower_hex (c div 256), lower_hex (c div 16),
      lower_hex c]"

definition quote_symbol :: "symbol \<Rightarrow> string" where
  "quote_symbol u =
     (case u of
        Stray b \<Rightarrow> [b]
      | Point c \<Rightarrow>
          if c = 0x08 then [CHR 0x5C, CHR ''b'']
          else if c = 0x09 then [CHR 0x5C, CHR ''t'']
          else if c = 0x0A then [CHR 0x5C, CHR ''n'']
          else if c = 0x0C then [CHR 0x5C, CHR ''f'']
          else if c = 0x0D then [CHR 0x5C, CHR ''r'']
          else if c = 0x22 then [CHR 0x5C, CHR 0x22]
          else if c = 0x5C then [CHR 0x5C, CHR 0x5C]
          else if c < 0x20 \<or> lone_surrogate u then unicode_escape c
          else utf8 c)"

definition quote :: "string \<Rightarrow> string" where
  "quote s = [CHR 0x22] @ concat (map quote_symbol (symbols s)) @ [CHR 0x22]"

fun separated :: "string \<Rightarrow> string list \<Rightarrow> string" where
  \<comment> \<open>\<open>xs.join(sep)\<close>\<close>
  "separated sep [] = ''''"
| "separated sep [x] = x"
| "separated sep (x # y # zs) = x @ sep @ separated sep (y # zs)"

definition indentation :: "nat \<Rightarrow> string" where
  "indentation level = replicate (2 * level) (CHR '' '')"

fun stringify :: "nat \<Rightarrow> json \<Rightarrow> string" where
  \<comment> \<open>the first argument is the depth of the value inside the text\<close>
  "stringify level JNull = ''null''"
| "stringify level (JBool b) = (if b then ''true'' else ''false'')"
| "stringify level (JNumber r) =
     (if r \<in> {''Infinity'', ''-Infinity'', ''NaN''} then ''null'' else r)"
| "stringify level (JString s) = quote s"
| "stringify level (JArray xs) =
     (if xs = [] then ''[]''
      else ''[\<newline>''
           @ separated '',\<newline>''
               (map (\<lambda>x. indentation (Suc level) @ stringify (Suc level) x) xs)
           @ ''\<newline>'' @ indentation level @ '']'')"
| "stringify level (JObject ps) =
     (if ps = [] then ''{}''
      else ''{\<newline>''
           @ separated '',\<newline>''
               (map (\<lambda>(k, v). indentation (Suc level) @ quote k @ '': ''
                               @ stringify (Suc level) v) ps)
           @ ''\<newline>'' @ indentation level @ ''}'')"

section \<open>The process boundary\<close>

text \<open>
  \<open>execAsync\<close> (the promisified \<open>child_process.exec\<close>) is the only way the handlers run
  commands on the machine. What the machine does is the environment: given the commands
  run so far and the command, how long the child process runs, how it ends when it is
  left to run, and what it has written to its standard error after a given time. The
  environment also answers the network requests, tells the time, and is the engine: it
  parses JSON and words the messages of the errors that built-in operations throw. The
  history of commands is the state the handlers thread; a handler has run a command
  exactly when it has extended the history.
\<close>

datatype errcode = NoCode | ExitCode int | ErrName string

record js_error =
  \<comment> \<open>the properties of an error that the code reads; \<open>NoCode\<close> is a \<open>code\<close> that is
      \<open>null\<close> or missing\<close>
  message :: string
  code :: errcode

record exec_result =
  stdout :: string
  stderr :: string

datatype builtin_error =
    ReadPropertyOfUndefined string  \<comment> \<open>\<open>undefined.p\<close>\<close>
  | ReadPropertyOfNull string       \<comment> \<open>\<open>null.p\<close>\<close>
  | DestructureUndefined string     \<comment> \<open>\<open>const { p, ... } = args\<close> with \<open>args\<close> undefined\<close>
  | CommandNotString string         \<comment> \<open>\<open>exec\<close> called on the value of an inherited property\<close>
  | NotAFunction string             \<comment> \<open>calling a value that is no function\<close>
  | NoObject                        \<comment> \<open>\<open>ToObject(undefined)\<close>\<close>
  | CalledOnUndefined string        \<comment> \<open>a method that names itself when it has no receiver\<close>
  | NotPrimitive                    \<comment> \<open>an object that converts to no primitive value\<close>
  | URIMalformed                    \<comment> \<open>the URIError of \<open>encodeURIComponent\<close>\<close>

record env =
  settle :: "string list \<Rightarrow> string \<Rightarrow> js_error + exec_result"
    \<comment> \<open>how the command ends when nothing cuts it short\<close>
  duration :: "string list \<Rightarrow> string \<Rightarrow> nat"
    \<comment> \<open>the milliseconds the child process runs\<close>
  written :: "string list \<Rightarrow> string \<Rightarrow> nat \<Rightarrow> string"
    \<comment> \<open>what the child has written to its standard error after so many milliseconds\<close>
  fetch_json :: "string list \<Rightarrow> string \<Rightarrow> (string \<times> string) list \<Rightarrow> js_error + json"
    \<comment> \<open>\<open>(await fetch(url, { headers })).json()\<close>\<close>
  JSON_parse :: "string \<Rightarrow> js_error + json"
  toISOString :: "string list \<Rightarrow> string"
    \<comment> \<open>\<open>new Date().toISOString()\<close>\<close>
  error_text :: "builtin_error \<Rightarrow> string"
    \<comment> \<open>the engine's message for an error a built-in operation throws\<close>

definition thrown :: "env \<Rightarrow> builtin_error \<Rightarrow> js_error" where
  "thrown e b = \<lparr>message = error_text e b, code = NoCode\<rparr>"

definition Error :: "string \<Rightarrow> js_error" where
  \<comment> \<open>\<open>new Error(m)\<close>\<close>
  "Error m = \<lparr>message = m, code = NoCode\<rparr>"

text \<open>
  \<open>exec\<close> with its \<open>timeout\<close> option, promisified. A child that runs longer than a
  timeout greater than zero is sent \<open>SIGTERM\<close>: the promise rejects with the error of a
  failed command, whose \<open>killed\<close> is true, whose \<open>signal\<close> is \<open>SIGTERM\<close> and whose \<open>code\<close>,
  the exit code of a child that a signal ended, is \<open>null\<close>.
\<close>

definition run :: "env \<Rightarrow> string list \<Rightarrow> string \<Rightarrow> nat option \<Rightarrow> js_error + exec_result" where
  "run e h command timeout =
     (case timeout of
        None \<Rightarrow> settle e h command
      | Some ms \<Rightarrow>
          if 0 < ms \<and> ms < duration e h command
          then Inl \<lparr>message = ''Command failed: '' @ command @ ''\<newline>''
                               @ written e h command ms,
                    code = NoCode\<rparr>
          else settle e h command)"

definition execAsync ::
  "env \<Rightarrow> string list \<Rightarrow> string \<Rightarrow> nat option \<Rightarrow> (js_error + exec_result) \<times> string list" where
  "execAsync e h command timeout = (run e h command timeout, h @ [command])"

section \<open>tools.js\<close>

definition timeout_message :: string where
  "timeout_message = ''Raycast operation timed out. This may be normal for complex AppleScript operations. Operation was attempted but may need manual verification.''"

text \<open>
  The object \<open>executeRaycastCommand\<close> returns is kept as the list of its properties, each
  with its string value, in the order of the object literal. Its \<open>try\<close> covers the whole
  body, so the model has no branch that throws: the result is a sum only to say so.
\<close>

definition executeRaycastCommand ::
  "env \<Rightarrow> string list \<Rightarrow> string \<Rightarrow> (js_error + (string \<times> string) list) \<times> string list" where
  "executeRaycastCommand e h command =
     (case execAsync e h command (Some 60000) of
        (Inr result, h') \<Rightarrow> (Inr [(''stdout'', stdout result), (''stderr'', stderr result)], h')
      | (Inl error, h') \<Rightarrow>
          (if code error = ErrName ''ETIMEDOUT''
           then (Inr [(''stdout'', ''''), (''stderr'', timeout_message)], h')
           else (Inr [(''stdout'', ''''),
                      (''stderr'', if message error \<noteq> [] then message error
                                   else ''Raycast command execution failed'')], h')))"

definition openRaycast :: "env \<Rightarrow> string list \<Rightarrow> (js_error + unit) \<times> string list" where
  "openRaycast e h =
     (case execAsync e h ''open -a Raycast'' None of
        (Inl error, h') \<Rightarrow> (Inl error, h')
      | (Inr _, h') \<Rightarrow> (Inr (), h'))"

definition open_command :: "string \<Rightarrow> string" where
  \<comment> \<open>\<open>`open "${url}"`\<close>\<close>
  \<open>open_command url = ''open "'' @ url @ ''"''\<close>

definition triggerRaycastURL :: "env \<Rightarrow> string list \<Rightarrow> string \<Rightarrow> (js_error + unit) \<times> string list" where
  \<open>triggerRaycastURL e h url =
     (case execAsync e h (open_command url) None of
        (Inl error, h') \<Rightarrow> (Inl error, h')
      | (Inr _, h') \<Rightarrow> (Inr (), h'))\<close>

section \<open>handlers.js\<close>

record content_item =
  item_type :: string
  item_text :: string

record response =
  content :: "content_item list"
  isError :: "bool option"   \<comment> \<open>\<open>None\<close>: the response object has no \<open>isError\<close> property\<close>

definition success :: "string \<Rightarrow> response" where
  \<comment> \<open>\<open>{ content: [{ type: 'text', text: t }] }\<close>\<close>
  "success t = \<lparr>content = [\<lparr>item_type = ''text'', item_text = t\<rparr>], isError = None\<rparr>"

definition failure :: "string \<Rightarrow> response" where
  \<comment> \<open>\<open>{ content: [{ type: 'text', text: t }], isError: true }\<close>\<close>
  "failure t = \<lparr>content = [\<lparr>item_type = ''text'', item_text = t\<rparr>], isError = Some True\<rparr>"

text \<open>
  The arguments object, with the properties the handlers destructure from it
  (\<open>text_value\<close> is the property \<open>text\<close>, \<open>func\<close> the property \<open>function\<close>,
  \<open>workflow_name\<close> the property \<open>name\<close>). A request may come without an arguments object.
\<close>

record step =
  step_type :: "string option"
  step_action :: "string option"
  parameters :: "(string \<times> json) list option"

record arguments =
  query :: "string option"
  execute :: "bool option"
  command :: "string option"
  extension :: "string option"
  args :: "string option"
  action :: "string option"
  text_value :: "string option"
  index :: "string option"
  shortcut :: "string option"
  custom_key :: "string option"
  func :: "string option"
  confirm :: "bool option"
  service :: "string option"
  extension_id :: "string option"
  publish_path :: "string option"
  workflow_name :: "string option"
  steps :: "step list option"
  trigger :: "string option"

record params =
  name :: string
  arguments :: "arguments option"

definition magnifier :: string where "magnifier = [CHR 0xF0, CHR 0x9F, CHR 0x94, CHR 0x8D]"
definition check_mark :: string where "check_mark = [CHR 0xE2, CHR 0x9C, CHR 0x85]"
definition cross_mark :: string where "cross_mark = [CHR 0xE2, CHR 0x9D, CHR 0x8C]"
definition rocket :: string where "rocket = [CHR 0xF0, CHR 0x9F, CHR 0x9A, CHR 0x80]"
definition clipboard :: string where "clipboard = [CHR 0xF0, CHR 0x9F, CHR 0x93, CHR 0x8B]"
definition keyboard :: string where
  "keyboard = [CHR 0xE2, CHR 0x8C, CHR 0xA8, CHR 0xEF, CHR 0xB8, CHR 0x8F]"
definition window :: string where "window = [CHR 0xF0, CHR 0x9F, CHR 0xAA, CHR 0x9F]"
definition wrench :: string where "wrench = [CHR 0xF0, CHR 0x9F, CHR 0x94, CHR 0xA7]"

definition osascript :: "string \<Rightarrow> string" where
  \<comment> \<open>\<open>`osascript -e '${script}'`\<close>\<close>
  "osascript script = ''osascript -e '' @ [CHR 0x27] @ script @ [CHR 0x27]"

text \<open>
  Every handler first destructures its argument, outside its \<open>try\<close>: without an
  arguments object that throws a TypeError, which names the first property of the
  pattern. With one, the handler runs its \<open>try\<close> statement, which returns a response
  whatever happens.
\<close>

definition destructured ::
  "env \<Rightarrow> string \<Rightarrow> string list \<Rightarrow> arguments option
     \<Rightarrow> (arguments \<Rightarrow> response \<times> string list) \<Rightarrow> (js_error + response) \<times> string list" where
  "destructured e first_property h arg body =
     (case arg of
        None \<Rightarrow> (Inl (thrown e (DestructureUndefined first_property)), h)
      | Some a \<Rightarrow> (case body a of (r, h') \<Rightarrow> (Inr r, h')))"

subsection \<open>handleRaycastSearch\<close>

definition search_appleScript :: "string option \<Rightarrow> bool \<Rightarrow> string" where
  \<open>search_appleScript q ex =
     ''\<newline>      tell application "Raycast"\<newline>        activate\<newline>        delay 0.5\<newline>      end tell\<newline>      \<newline>      tell application "System Events"\<newline>        keystroke "''
     @ template q @ ''"\<newline>        ''
     @ (if ex then ''delay 0.5\<newline>key code 36'' else '''')
     @ ''\<newline>      end tell\<newline>    ''\<close>

definition handleRaycastSearch_try :: "env \<Rightarrow> string list \<Rightarrow> arguments \<Rightarrow> response \<times> string list" where
  \<open>handleRaycastSearch_try e h a =
     (let ex = (case execute a of None \<Rightarrow> False | Some b \<Rightarrow> b);
          caught = (\<lambda>m h'. (failure (cross_mark @ '' Raycast search failed: '' @ m), h'))
      in case encodeURIComponent (template (query a)) of
           None \<Rightarrow> caught (error_text e URIMalformed) h
         | Some encoded \<Rightarrow>
             (case triggerRaycastURL e h
                     (''raycast://script-commands/search?query='' @ encoded) of
                (Inl error, h1) \<Rightarrow> caught (message error) h1
              | (Inr _, h1) \<Rightarrow>
                  (case execAsync e h1 (osascript (search_appleScript (query a) ex)) None of
                     (Inl error, h2) \<Rightarrow> caught (message error) h2
                   | (Inr _, h2) \<Rightarrow>
                       (success (magnifier @ '' Raycast Search: "'' @ template (query a)
                                 @ ''"''
                                 @ (if ex then '' (executed first result)'' else '''')
                                 @ ''\<newline>\<newline>'' @ check_mark
                                 @ '' Raycast opened with search query''), h2))))\<close>

definition handleRaycastSearch ::
  "env \<Rightarrow> string list \<Rightarrow> arguments option \<Rightarrow> (js_error + response) \<times> string list" where
  "handleRaycastSearch e h arg = destructured e ''query'' h arg (handleRaycastSearch_try e h)"

subsection \<open>handleRaycastOpen\<close>

definition commandMap :: "(string \<times> string) list" where
  "commandMap =
     [(''clipboard-history'', ''extensions/raycast/clipboard-history/clipboard-history''),
      (''emoji'', ''extensions/raycast/emoji-symbols/emoji-symbols''),
      (''calculator'', ''extensions/raycast/calculator/calculator''),
      (''calendar'', ''extensions/raycast/calendar/my-schedule''),
      (''contacts'', ''extensions/raycast/contacts/search-contacts''),
      (''reminders'', ''extensions/raycast/apple-reminders/create-reminder''),
      (''notes'', ''extensions/raycast/apple-notes/search-notes''),
      (''safari-bookmarks'', ''extensions/raycast/safari/search-bookmarks'')]"

definition handleRaycastOpen_try :: "env \<Rightarrow> string list \<Rightarrow> arguments \<Rightarrow> response \<times> string list" where
  \<open>handleRaycastOpen_try e h a =
     (let caught = (\<lambda>m h'. (failure (cross_mark @ '' Raycast command failed: '' @ m), h'));
          trigger = (\<lambda>raycastURL.
            case triggerRaycastURL e h raycastURL of
              (Inl error, h1) \<Rightarrow> caught (message error) h1
            | (Inr _, h1) \<Rightarrow>
                (success (rocket @ '' Raycast Command: ''
                          @ template (js_or (command a) (extension a))
                          @ ''\<newline>\<newline>'' @ check_mark
                          @ '' Command executed successfully''), h1))
      in if truthy (command a) then
           (let looked = get_prop commandMap (command a);
                mappedCommand = (if property_truthy looked then property_string looked
                                 else ''extensions/'' @ template (command a))
            in if truthy (args a) then
                 (case encodeURIComponent (template (args a)) of
                    None \<Rightarrow> caught (error_text e URIMalformed) h
                  | Some encoded \<Rightarrow>
                      trigger (''raycast://'' @ mappedCommand @ ''?arguments='' @ encoded))
               else trigger (''raycast://'' @ mappedCommand))
         else if truthy (extension a) then
           trigger (''raycast://'' @ ''extensions/'' @ template (extension a))
         else
           (case openRaycast e h of
              (Inl error, h1) \<Rightarrow> caught (message error) h1
            | (Inr _, h1) \<Rightarrow> (success (rocket @ '' Raycast opened''), h1)))\<close>

definition handleRaycastOpen ::
  "env \<Rightarrow> string list \<Rightarrow> arguments option \<Rightarrow> (js_error + response) \<times> string list" where
  "handleRaycastOpen e h arg = destructured e ''command'' h arg (handleRaycastOpen_try e h)"

subsection \<open>handleRaycastClipboard\<close>

definition clearScript :: string where
  \<open>clearScript =
     ''\<newline>          tell application "Raycast"\<newline>            activate\<newline>          end tell\<newline>          tell application "System Events"\<newline>            keystroke "," using command down\<newline>            delay 1\<newline>            keystroke "clipboard"\<newline>            delay 0.5\<newline>            key code 36\<newline>            delay 0.5\<newline>            keystroke "Clear History"\<newline>            delay 0.5\<newline>            key code 36\<newline>          end tell\<newline>        ''\<close>

definition tell_system_events :: "string \<Rightarrow> string" where
  \<comment> \<open>\<open>`osascript -e 'tell application "System Events" to ${s}'`\<close>, the shape of the three
      paste commands\<close>
  \<open>tell_system_events s =
     ''osascript -e '' @ [CHR 0x27] @ ''tell application "System Events" to '' @ s @ [CHR 0x27]\<close>

definition echo_to_pbcopy :: "string \<Rightarrow> string" where
  \<comment> \<open>\<open>`echo "${text}" | pbcopy`\<close>\<close>
  \<open>echo_to_pbcopy t = ''echo "'' @ t @ ''" | pbcopy''\<close>

definition clipboard_history_url :: string where
  "clipboard_history_url = ''raycast://extensions/raycast/clipboard-history/clipboard-history''"

text \<open>
  The \<open>switch\<close> over \<open>action\<close> has the four cases and no \<open>default\<close>; whatever the case did,
  control reaches the \<open>return\<close> after it, whose text calls \<open>action.toUpperCase()\<close> (a
  TypeError, caught like every other exception, when \<open>action\<close> is missing).
\<close>

definition handleRaycastClipboard_try ::
  "env \<Rightarrow> string list \<Rightarrow> arguments \<Rightarrow> response \<times> string list" where
  \<open>handleRaycastClipboard_try e h a =
     (let caught = (\<lambda>m h'. (failure (cross_mark @ '' Clipboard action failed: '' @ m), h'));
          completed = (\<lambda>h'.
            case action a of
              None \<Rightarrow> caught (error_text e (ReadPropertyOfUndefined ''toUpperCase'')) h'
            | Some act \<Rightarrow>
                (success (clipboard @ '' Clipboard '' @ toUpperCase act
                          @ (if truthy (text_value a)
                             then '': "'' @ template (text_value a) @ ''"'' else '''')
                          @ (case index a of None \<Rightarrow> ''''
                             | Some i \<Rightarrow> '' (item '' @ i @ '')'')
                          @ ''\<newline>\<newline>'' @ check_mark
                          @ '' Action completed successfully''), h'))
      in if action a = Some ''show'' then
           (case triggerRaycastURL e h clipboard_history_url of
              (Inl error, h1) \<Rightarrow> caught (message error) h1
            | (Inr _, h1) \<Rightarrow> completed h1)
         else if action a = Some ''clear'' then
           (case execAsync e h (osascript clearScript) None of
              (Inl error, h1) \<Rightarrow> caught (message error) h1
            | (Inr _, h1) \<Rightarrow> completed h1)
         else if action a = Some ''copy'' then
           (if \<not> truthy (text_value a) then
              (failure (cross_mark @ '' Text is required for copy action''), h)
            else
              (case execAsync e h (echo_to_pbcopy (template (text_value a))) None of
                 (Inl error, h1) \<Rightarrow> caught (message error) h1
               | (Inr _, h1) \<Rightarrow> completed h1))
         else if action a = Some ''paste'' then
           (case index a of
              Some i \<Rightarrow>
                (case triggerRaycastURL e h clipboard_history_url of
                   (Inl error, h1) \<Rightarrow> caught (message error) h1
                 | (Inr _, h1) \<Rightarrow>
                     (case execAsync e h1
                             (tell_system_events (''key code 125 repeat '' @ i @ '' times'')) None of
                        (Inl error, h2) \<Rightarrow> caught (message error) h2
                      | (Inr _, h2) \<Rightarrow>
                          (case execAsync e h2 (tell_system_events ''key code 36'') None of
                             (Inl error, h3) \<Rightarrow> caught (message error) h3
                           | (Inr _, h3) \<Rightarrow> completed h3)))
            | None \<Rightarrow>
                (case execAsync e h (tell_system_events ''keystroke "v" using command down'') None of
                   (Inl error, h1) \<Rightarrow> caught (message error) h1
                 | (Inr _, h1) \<Rightarrow> completed h1))
         else completed h)\<close>

definition handleRaycastClipboard ::
  "env \<Rightarrow> string list \<Rightarrow> arguments option \<Rightarrow> (js_error + response) \<times> string list" where
  "handleRaycastClipboard e h arg =
     destructured e ''action'' h arg (handleRaycastClipboard_try e h)"

subsection \<open>handleRaycastShortcut\<close>

definition modifier_tokens :: "string list" where
  "modifier_tokens = [''cmd'', ''shift'', ''alt'', ''ctrl'']"

definition shortcutScript :: "string \<Rightarrow> string" where
  \<open>shortcutScript ck =
     (let keys = map trim (js_split (CHR ''+'') (toLowerCase ck));
          modifiers = filter (\<lambda>k. k \<in> set modifier_tokens) keys;
          key = List.find (\<lambda>k. k \<notin> set modifier_tokens) keys;
          modifierString =
              (if ''cmd'' \<in> set modifiers then ''command down, '' else '''')
            @ (if ''shift'' \<in> set modifiers then ''shift down, '' else '''')
            @ (if ''alt'' \<in> set modifiers then ''option down, '' else '''')
            @ (if ''ctrl'' \<in> set modifiers then ''control down, '' else '''')
      in ''tell application "System Events" to keystroke "'' @ template key
         @ ''" using {'' @ slice_0_minus2 modifierString @ ''}'')\<close>

definition shortcuts :: "(string \<times> string) list" where
  "shortcuts =
     [(''main-window'', ''raycast://''),
      (''clipboard-history'', ''raycast://extensions/raycast/clipboard-history/clipboard-history''),
      (''emoji'', ''raycast://extensions/raycast/emoji-symbols/emoji-symbols''),
      (''calculator'', ''raycast://extensions/raycast/calculator/calculator''),
      (''screenshot'', ''raycast://extensions/raycast/screenshot/screenshot''),
      (''timer'', ''raycast://extensions/raycast/timer/timer'')]"

definition handleRaycastShortcut_try ::
  "env \<Rightarrow> string list \<Rightarrow> arguments \<Rightarrow> response \<times> string list" where
  \<open>handleRaycastShortcut_try e h a =
     (let caught = (\<lambda>m h'. (failure (cross_mark @ '' Shortcut execution failed: '' @ m), h'));
          triggered = (\<lambda>h'.
            (success (keyboard @ '' Shortcut Triggered: ''
                      @ template (js_or (shortcut a) (custom_key a))
                      @ ''\<newline>\<newline>'' @ check_mark
                      @ '' Shortcut executed successfully''), h'))
      in if truthy (custom_key a) then
           (case execAsync e h (osascript (shortcutScript (template (custom_key a)))) None of
              (Inl error, h1) \<Rightarrow> caught (message error) h1
            | (Inr _, h1) \<Rightarrow> triggered h1)
         else if truthy (shortcut a) then
           (let url = get_prop shortcuts (shortcut a)
            in if property_truthy url then
                 (case triggerRaycastURL e h (property_string url) of
                    (Inl error, h1) \<Rightarrow> caught (message error) h1
                  | (Inr _, h1) \<Rightarrow> triggered h1)
               else
                 (failure (cross_mark @ '' Unknown shortcut: '' @ template (shortcut a)), h))
         else triggered h)\<close>

definition handleRaycastShortcut ::
  "env \<Rightarrow> string list \<Rightarrow> arguments option \<Rightarrow> (js_error + response) \<times> string list" where
  "handleRaycastShortcut e h arg =
     destructured e ''shortcut'' h arg (handleRaycastShortcut_try e h)"

subsection \<open>handleRaycastWindow\<close>

definition toggleScript :: string where
  \<open>toggleScript =
     ''\<newline>            if application "Raycast" is running then\<newline>              tell application "System Events"\<newline>                if (name of processes) contains "Raycast" then\<newline>                  tell application "Raycast" to set visible to not visible\<newline>                else\<newline>                  tell application "Raycast" to activate\<newline>                end if\<newline>              end tell\<newline>            else\<newline>              tell application "Raycast" to activate\<newline>            end if\<newline>          ''\<close>

definition windowScript :: "string option \<Rightarrow> js_error + string" where
  \<open>windowScript act =
     (if act = Some ''show'' then Inr ''tell application "Raycast" to activate''
      else if act = Some ''hide'' then Inr ''tell application "Raycast" to set visible to false''
      else if act = Some ''toggle'' then Inr toggleScript
      else if act = Some ''focus'' then Inr ''tell application "Raycast" to activate''
      else Inl (Error (''Unknown window action: '' @ template act)))\<close>

definition handleRaycastWindow_try ::
  "env \<Rightarrow> string list \<Rightarrow> arguments \<Rightarrow> response \<times> string list" where
  \<open>handleRaycastWindow_try e h a =
     (let caught = (\<lambda>m h'. (failure (cross_mark @ '' Window action failed: '' @ m), h'))
      in case windowScript (action a) of
           Inl error \<Rightarrow> caught (message error) h
         | Inr script \<Rightarrow>
             (case execAsync e h (osascript script) None of
                (Inl error, h1) \<Rightarrow> caught (message error) h1
              | (Inr _, h1) \<Rightarrow>
                  (success (window @ '' Window '' @ toUpperCase (template (action a))
                            @ ''\<newline>\<newline>'' @ check_mark
                            @ '' Window action completed successfully''), h1)))\<close>

definition handleRaycastWindow ::
  "env \<Rightarrow> string list \<Rightarrow> arguments option \<Rightarrow> (js_error + response) \<times> string list" where
  "handleRaycastWindow e h arg =
     destructured e ''action'' h arg (handleRaycastWindow_try e h)"

subsection \<open>handleRaycastSystem\<close>

definition systemCommands :: "(string \<times> string) list" where
  \<open>systemCommands =
     [(''sleep'', ''pmset sleepnow''),
      (''restart'', ''sudo shutdown -r now''),
      (''shutdown'', ''sudo shutdown -h now''),
      (''lock'', ''/System/Library/CoreServices/Menu'' @ [CHR 0x5C]
                 @ '' Extras/User.menu/Contents/Resources/CGSession -suspend''),
      (''logout'', ''osascript -e "tell application '' @ [CHR 0x5C] @ ''"System Events''
                   @ [CHR 0x5C] @ ''" to log out"''),
      (''empty-trash'', ''osascript -e "tell application '' @ [CHR 0x5C] @ ''"Finder''
                        @ [CHR 0x5C] @ ''" to empty the trash"''),
      (''eject-all'', ''osascript -e "tell application '' @ [CHR 0x5C] @ ''"Finder''
                      @ [CHR 0x5C] @ ''" to eject the disks"'')]\<close>

definition destructive :: "string list" where
  "destructive = [''restart'', ''shutdown'', ''logout'', ''empty-trash'']"

definition confirmScript :: "string option \<Rightarrow> string" where
  \<open>confirmScript f =
     ''\<newline>        tell application "System Events"\<newline>          display dialog "Are you sure you want to ''
     @ template f
     @ ''?" buttons {"Cancel", "OK"} default button "Cancel"\<newline>          if button returned of result is "OK" then\<newline>            return "confirmed"\<newline>          else\<newline>            return "cancelled"\<newline>          end if\<newline>        end tell\<newline>      ''\<close>

text \<open>
  \<open>array.includes(func)\<close> compares with the value itself, so a missing \<open>func\<close> is in
  no array of strings.
\<close>

definition array_includes :: "string list \<Rightarrow> string option \<Rightarrow> bool" where
  "array_includes xs x = (case x of None \<Rightarrow> False | Some s \<Rightarrow> s \<in> set xs)"

definition handleRaycastSystem_try ::
  "env \<Rightarrow> string list \<Rightarrow> arguments \<Rightarrow> response \<times> string list" where
  \<open>handleRaycastSystem_try e h a =
     (let cnf = (case confirm a of None \<Rightarrow> True | Some b \<Rightarrow> b);
          caught = (\<lambda>m h'. (failure (cross_mark @ '' System function failed: '' @ m), h'));
          cmd = get_prop systemCommands (func a);
          execute_command = (\<lambda>h'.
            case cmd of
              Own c \<Rightarrow>
                (case execAsync e h' c None of
                   (Inl error, h2) \<Rightarrow> caught (message error) h2
                 | (Inr _, h2) \<Rightarrow>
                     (success (wrench @ '' System '' @ toUpperCase (template (func a))
                               @ ''\<newline>\<newline>'' @ check_mark
                               @ '' System function executed successfully''), h2))
            | Inherited q \<Rightarrow> caught (error_text e (CommandNotString q)) h'
            | Absent \<Rightarrow> caught (error_text e (CommandNotString ''undefined'')) h')
      in if \<not> property_truthy cmd then
           (failure (cross_mark @ '' Unknown system function: '' @ template (func a)), h)
         else if cnf \<and> array_includes destructive (func a) then
           (case execAsync e h (osascript (confirmScript (func a))) None of
              (Inl error, h1) \<Rightarrow> caught (message error) h1
            | (Inr confirmResult, h1) \<Rightarrow>
                (if trim (stdout confirmResult) \<noteq> ''confirmed'' then
                   (success (cross_mark @ '' System '' @ template (func a)
                             @ '' cancelled by user''), h1)
                 else execute_command h1))
         else execute_command h)\<close>

definition handleRaycastSystem ::
  "env \<Rightarrow> string list \<Rightarrow> arguments option \<Rightarrow> (js_error + response) \<times> string list" where
  "handleRaycastSystem e h arg =
     destructured e ''function'' h arg (handleRaycastSystem_try e h)"

subsection \<open>handleToolCall\<close>

text \<open>
  The \<open>switch\<close> over the name of the tool is inside a \<open>try\<close>: what a handler throws
  becomes an error response.
\<close>

definition handleToolCall :: "env \<Rightarrow> string list \<Rightarrow> params \<Rightarrow> response \<times> string list" where
  "handleToolCall e h request =
     (let caught = (\<lambda>(result, h').
            case result of
              Inl error \<Rightarrow>
                (failure (''Error executing '' @ name request @ '': '' @ message error), h')
            | Inr r \<Rightarrow> (r, h'))
      in if name request = ''raycast_search'' then
           caught (handleRaycastSearch e h (arguments request))
         else if name request = ''raycast_open'' then
           caught (handleRaycastOpen e h (arguments request))
         else if name request = ''raycast_clipboard'' then
           caught (handleRaycastClipboard e h (arguments request))
         else if name request = ''raycast_shortcut'' then
           caught (handleRaycastShortcut e h (arguments request))
         else if name request = ''raycast_window'' then
           caught (handleRaycastWindow e h (arguments request))
         else if name request = ''raycast_system'' then
           caught (handleRaycastSystem e h (arguments request))
         else (failure (''Unknown tool: '' @ name request), h))"

section \<open>auth.ts\<close>

record AuthConfig =
  raycastApiKey :: "string option"
  raycastTeamId :: "string option"
  githubToken :: "string option"
  notionToken :: "string option"
  figmaToken :: "string option"
  slackToken :: "string option"
  linearToken :: "string option"
  jiraToken :: "string option"

definition serviceMap :: "(string \<times> string) list" where
  "serviceMap =
     [(''raycast'', ''raycastApiKey''),
      (''github'', ''githubToken''),
      (''notion'', ''notionToken''),
      (''figma'', ''figmaToken''),
      (''slack'', ''slackToken''),
      (''linear'', ''linearToken''),
      (''jira'', ''jiraToken'')]"

text \<open>
  \<open>this.config[key]\<close>. The key is a property name out of \<open>serviceMap\<close> or, when the
  service named a property every object inherits, a function or object, whose rendering
  names no property of the configuration.
\<close>

definition config_property :: "AuthConfig \<Rightarrow> property \<Rightarrow> string option" where
  "config_property cfg key =
     (case key of
        Own k \<Rightarrow>
          (if k = ''raycastApiKey'' then raycastApiKey cfg
           else if k = ''raycastTeamId'' then raycastTeamId cfg
           else if k = ''githubToken'' then githubToken cfg
           else if k = ''notionToken'' then notionToken cfg
           else if k = ''figmaToken'' then figmaToken cfg
           else if k = ''slackToken'' then slackToken cfg
           else if k = ''linearToken'' then linearToken cfg
           else if k = ''jiraToken'' then jiraToken cfg
           else None)
      | Inherited r \<Rightarrow> None
      | Absent \<Rightarrow> None)"

definition hasCredentials :: "AuthConfig \<Rightarrow> string \<Rightarrow> bool" where
  "hasCredentials cfg srv =
     (let key = get_prop serviceMap (Some srv)
      in if property_truthy key then truthy (config_property cfg key) else False)"

definition getCredential :: "AuthConfig \<Rightarrow> string \<Rightarrow> string option" where
  "getCredential cfg srv =
     (let key = get_prop serviceMap (Some srv)
      in if property_truthy key then config_property cfg key else None)"

text \<open>
  The methods below are those of the one \<open>RaycastAuth\<close> object the server holds; its
  configuration is their first argument.
\<close>

definition oauthUrls :: "(string \<times> string) list" where
  "oauthUrls =
     [(''github'', ''https://github.com/login/oauth/authorize?client_id=YOUR_CLIENT_ID&scope=repo,user''),
      (''notion'', ''https://api.notion.com/v1/oauth/authorize?client_id=YOUR_CLIENT_ID&response_type=code''),
      (''figma'', ''https://www.figma.com/oauth?client_id=YOUR_CLIENT_ID&redirect_uri=YOUR_REDIRECT&scope=files:read''),
      (''slack'', ''https://slack.com/oauth/v2/authorize?client_id=YOUR_CLIENT_ID&scope=channels:read,chat:write''),
      (''linear'', ''https://linear.app/oauth/authorize?client_id=YOUR_CLIENT_ID&response_type=code''),
      (''jira'', ''https://auth.atlassian.com/authorize?audience=api.atlassian.com&client_id=YOUR_CLIENT_ID'')]"

definition initiateOAuth :: "env \<Rightarrow> string list \<Rightarrow> string \<Rightarrow> (js_error + string) \<times> string list" where
  "initiateOAuth e h srv =
     (let url = get_prop oauthUrls (Some srv)
      in if \<not> property_truthy url then
           (Inl (Error (''Unsupported OAuth service: '' @ srv)), h)
         else
           (case execAsync e h (open_command (property_string url)) None of
              (Inl error, h1) \<Rightarrow> (Inl error, h1)
            | (Inr _, h1) \<Rightarrow> (Inr (property_string url), h1)))"

record validation =
  valid :: bool
  user :: "json option"
  error :: "string option"

definition validators :: "string \<Rightarrow> string \<Rightarrow> (string \<times> (string \<times> string) list) option" where
  \<comment> \<open>the request each validator sends: the URL and the headers\<close>
  "validators srv token =
     (if srv = ''github'' then
        Some (''https://api.github.com/user'', [(''Authorization'', ''token '' @ token)])
      else if srv = ''notion'' then
        Some (''https://api.notion.com/v1/users/me'',
              [(''Authorization'', ''Bearer '' @ token), (''Notion-Version'', ''2022-06-28'')])
      else if srv = ''figma'' then
        Some (''https://api.figma.com/v1/me'', [(''X-Figma-Token'', token)])
      else None)"

text \<open>
  A service that has a credential is one of the seven of \<open>serviceMap\<close>, so the lookup
  \<open>validators[service]\<close> meets no inherited property.
\<close>

definition validateCredentials :: "AuthConfig \<Rightarrow> env \<Rightarrow> string list \<Rightarrow> string \<Rightarrow> validation" where
  "validateCredentials cfg e h srv =
     (let token = getCredential cfg srv
      in if \<not> truthy token then
           \<lparr>valid = False, user = None, error = Some ''No credentials found''\<rparr>
         else
           (case validators srv (template token) of
              None \<Rightarrow>
                \<lparr>valid = False, user = None,
                 error = Some ''Validation not implemented for this service''\<rparr>
            | Some (url, headers) \<Rightarrow>
                (case fetch_json e h url headers of
                   Inl err \<Rightarrow> \<lparr>valid = False, user = None, error = Some (message err)\<rparr>
                 | Inr u \<Rightarrow> \<lparr>valid = True, user = Some u, error = None\<rparr>)))"

definition instructions :: "(string \<times> string) list" where
  \<open>instructions =
    [(''raycast'',
       ''\<newline>''
       @ [CHR 0xF0, CHR 0x9F, CHR 0x9A, CHR 0x80]
       @ '' Raycast API Setup:\<newline>1. Open Raycast ''
       @ [CHR 0xE2, CHR 0x86, CHR 0x92]
       @ '' Preferences ''
       @ [CHR 0xE2, CHR 0x86, CHR 0x92]
       @ '' Extensions ''
       @ [CHR 0xE2, CHR 0x86, CHR 0x92]
       @ '' "Developer"\<newline>''
       @ ''2. Create new API key\<newline>''
       @ ''3. Add to your .zshrc: export RAYCAST_API_KEY="your-key-here"\<newline>''
       @ ''4. Restart terminal\<newline>''
       @ ''\<newline>''
       @ [CHR 0xF0, CHR 0x9F, CHR 0x93, CHR 0x96]
       @ '' Documentation: https://developers.raycast.com/api-reference\<newline>      ''),
     (''github'',
       ''\<newline>''
       @ [CHR 0xF0, CHR 0x9F, CHR 0x90, CHR 0x99]
       @ '' GitHub Token Setup:\<newline>1. Go to GitHub Settings ''
       @ [CHR 0xE2, CHR 0x86, CHR 0x92]
       @ '' Developer settings ''
       @ [CHR 0xE2, CHR 0x86, CHR 0x92]
       @ '' Personal access tokens\<newline>''
       @ ''2. Generate new token with repo, user, workflow scopes\<newline>''
       @ ''3. Add to your .zshrc: export GITHUB_TOKEN="your-token-here"\<newline>''
       @ ''4. Restart terminal\<newline>''
       @ ''\<newline>''
       @ [CHR 0xF0, CHR 0x9F, CHR 0x94, CHR 0x97]
       @ '' URL: https://github.com/settings/tokens\<newline>      ''),
     (''notion'',
       ''\<newline>''
       @ [CHR 0xF0, CHR 0x9F, CHR 0x93, CHR 0x9D]
       @ '' Notion Integration Setup:\<newline>1. Go to Notion Developers ''
       @ [CHR 0xE2, CHR 0x86, CHR 0x92]
       @ '' Create new integration\<newline>''
       @ ''2. Copy the Internal Integration Token\<newline>''
       @ ''3. Add to your .zshrc: export NOTION_TOKEN="your-token-here"\<newline>''
       @ ''4. Share databases/pages with your integration\<newline>''
       @ ''\<newline>''
       @ [CHR 0xF0, CHR 0x9F, CHR 0x94, CHR 0x97]
       @ '' URL: https://www.notion.so/my-integrations\<newline>      ''),
     (''figma'',
       ''\<newline>''
       @ [CHR 0xF0, CHR 0x9F, CHR 0x8E, CHR 0xA8]
       @ '' Figma Token Setup:\<newline>1. Go to Figma Settings ''
       @ [CHR 0xE2, CHR 0x86, CHR 0x92]
       @ '' Account ''
       @ [CHR 0xE2, CHR 0x86, CHR 0x92]
       @ '' Personal access tokens\<newline>''
       @ ''2. Generate new token\<newline>''
       @ ''3. Add to your .zshrc: export FIGMA_TOKEN="your-token-here"\<newline>''
       @ ''4. Restart terminal\<newline>''
       @ ''\<newline>''
       @ [CHR 0xF0, CHR 0x9F, CHR 0x94, CHR 0x97]
       @ '' URL: https://www.figma.com/developers/api#access-tokens\<newline>      ''),
     (''slack'',
       ''\<newline>''
       @ [CHR 0xF0, CHR 0x9F, CHR 0x92, CHR 0xAC]
       @ '' Slack App Setup:\<newline>1. Go to Slack API ''
       @ [CHR 0xE2, CHR 0x86, CHR 0x92]
       @ '' Create new app\<newline>''
       @ ''2. Configure OAuth scopes and permissions\<newline>''
       @ ''3. Install app to workspace\<newline>''
       @ ''4. Add to your .zshrc: export SLACK_TOKEN="your-bot-token-here"\<newline>''
       @ ''\<newline>''
       @ [CHR 0xF0, CHR 0x9F, CHR 0x94, CHR 0x97]
       @ '' URL: https://api.slack.com/apps\<newline>      '')]\<close>

definition getSetupInstructions :: "string \<Rightarrow> string" where
  "getSetupInstructions srv =
     (let found = get_prop instructions (Some srv)
      in if property_truthy found then property_string found
         else ''Setup instructions not available for '' @ srv)"

definition light_bulb :: string where "light_bulb = [CHR 0xF0, CHR 0x9F, CHR 0x92, CHR 0xA1]"
definition bullet :: string where "bullet = [CHR 0xE2, CHR 0x80, CHR 0xA2]"

definition audit_lines :: "AuthConfig \<Rightarrow> string \<Rightarrow> string list" where
  "audit_lines cfg srv =
     (if hasCredentials cfg srv then
        [check_mark @ '' '' @ toUpperCase srv @ '': Configured'']
      else
        [cross_mark @ '' '' @ toUpperCase srv @ '': Missing'',
         ''   '' @ light_bulb @ '' Run: raycast_auth setup '' @ srv])"

definition auditIntegrations :: "AuthConfig \<Rightarrow> string" where
  "auditIntegrations cfg =
     separated ''\<newline>''
       ([magnifier @ '' Integration Audit Report:\<newline>'']
        @ concat (map (audit_lines cfg) [''raycast'', ''github'', ''notion'', ''figma'', ''slack''])
        @ [''\<newline>'' @ rocket @ '' Potential Integration Opportunities:'',
           bullet @ '' Linear - Project management'',
           bullet @ '' Jira - Issue tracking'',
           bullet @ '' Confluence - Documentation'',
           bullet @ '' Miro - Collaboration boards'',
           bullet @ '' AWS - Cloud services'',
           bullet @ '' Vercel - Deployment platform''])"

section \<open>index.ts\<close>

definition padlock :: string where "padlock = [CHR 0xF0, CHR 0x9F, CHR 0x94, CHR 0x90]"
definition globe :: string where "globe = [CHR 0xF0, CHR 0x9F, CHR 0x8C, CHR 0x90]"
definition memo :: string where "memo = [CHR 0xF0, CHR 0x9F, CHR 0x93, CHR 0x9D]"
definition package :: string where "package = [CHR 0xF0, CHR 0x9F, CHR 0x93, CHR 0xA6]"
definition inbox :: string where "inbox = [CHR 0xF0, CHR 0x9F, CHR 0x93, CHR 0xA5]"
definition books :: string where "books = [CHR 0xF0, CHR 0x9F, CHR 0x93, CHR 0x9A]"
definition link_mark :: string where "link_mark = [CHR 0xF0, CHR 0x9F, CHR 0x94, CHR 0x97]"
definition right_arrow :: string where "right_arrow = [CHR 0xE2, CHR 0x86, CHR 0x92]"
definition up_arrow :: string where
  "up_arrow = [CHR 0xE2, CHR 0xAC, CHR 0x86, CHR 0xEF, CHR 0xB8, CHR 0x8F]"
definition high_voltage :: string where "high_voltage = [CHR 0xE2, CHR 0x9A, CHR 0xA1]"

subsection \<open>handleAuthTool\<close>

definition handleAuthTool_try ::
  "AuthConfig \<Rightarrow> env \<Rightarrow> string list \<Rightarrow> arguments \<Rightarrow> response \<times> string list" where
  \<open>handleAuthTool_try cfg e h a =
     (let caught = (\<lambda>m h'. (failure (cross_mark @ '' Auth action failed: '' @ m), h'));
          srv = template (service a)
      in if action a = Some ''setup'' then
           (if \<not> truthy (service a) then
              (failure (cross_mark @ '' Service parameter required for setup''), h)
            else (success (getSetupInstructions srv), h))
         else if action a = Some ''validate'' then
           (if \<not> truthy (service a) then
              (failure (cross_mark @ '' Service parameter required for validation''), h)
            else
              (let validation = validateCredentials cfg e h srv
               in (success ((if valid validation then check_mark else cross_mark) @ '' ''
                            @ toUpperCase srv @ '' Credentials: ''
                            @ (if valid validation then ''Valid'' else ''Invalid'')
                            @ ''\<newline>\<newline>''
                            @ (if truthy (error validation)
                               then ''Error: '' @ template (error validation) else '''')
                            @ (if json_truthy (user validation)
                               then ''\<newline>User: ''
                                    @ (case user validation of
                                         Some u \<Rightarrow> stringify 0 u | None \<Rightarrow> '''')
                               else '''')), h)))
         else if action a = Some ''audit'' then (success (auditIntegrations cfg), h)
         else if action a = Some ''oauth'' then
           (if \<not> truthy (service a) then
              (failure (cross_mark @ '' Service parameter required for OAuth''), h)
            else
              (case initiateOAuth e h srv of
                 (Inl err, h1) \<Rightarrow> caught (message err) h1
               | (Inr oauthUrl, h1) \<Rightarrow>
                   (success (padlock @ '' OAuth Flow Initiated for '' @ toUpperCase srv
                             @ ''\<newline>\<newline>'' @ globe @ '' Opening browser: '' @ oauthUrl
                             @ ''\<newline>\<newline>'' @ memo
                             @ '' Complete the authorization and copy the token to your environment variables.''),
                    h1)))
         else (failure (cross_mark @ '' Unknown auth action: '' @ template (action a)), h))\<close>

definition handleAuthTool ::
  "AuthConfig \<Rightarrow> env \<Rightarrow> string list \<Rightarrow> arguments option
     \<Rightarrow> (js_error + response) \<times> string list" where
  "handleAuthTool cfg e h arg = destructured e ''action'' h arg (handleAuthTool_try cfg e h)"

subsection \<open>handleExtensionsTool\<close>

definition listCmd :: string where
  \<open>listCmd = ''defaults read com.raycast.macos extensions 2>/dev/null || echo "No extensions configuration found"''\<close>

definition cat_command :: "string \<Rightarrow> string" where
  \<comment> \<open>\<open>`cat "${packageJsonPath}"`\<close>\<close>
  \<open>cat_command path = ''cat "'' @ path @ ''"''\<close>

definition requiredFields :: "string list" where
  "requiredFields = [''name'', ''title'', ''description'', ''author'', ''license'']"

fun renderings :: "json option list \<Rightarrow> string list option" where
  \<comment> \<open>the values of a template, converted one after the other; the first that converts to
      no string throws\<close>
  "renderings [] = Some []"
| "renderings (v # vs) =
     (case json_template v of
        None \<Rightarrow> None
      | Some s \<Rightarrow> (case renderings vs of None \<Rightarrow> None | Some ss \<Rightarrow> Some (s # ss)))"

definition publishing_guide :: "string \<Rightarrow> json \<Rightarrow> string option" where
  \<comment> \<open>the text of the publishing instructions; \<open>None\<close> when a value of the package
      description converts to no string\<close>
  \<open>publishing_guide path packageJson =
     (let field = json_member packageJson;
          or_NA = (\<lambda>v. json_or v (Some (JString ''N/A'')))
      in case renderings [json_or (field ''title'') (field ''name''), field ''name'',
                          or_NA (field ''title''), or_NA (field ''description''),
                          or_NA (field ''author''), or_NA (field ''license'')] of
           Some [shown, nm, title, description, author, license] \<Rightarrow>
             Some (rocket @ '' Extension Publishing Guide for "'' @ shown
                   @ ''":\<newline>\<newline>''
                   @ ''1. Ensure your extension is in: '' @ path @ ''\<newline>''
                   @ ''2. Run: npm run build (if applicable)\<newline>''
                   @ ''3. Run: npm run publish or ray publish\<newline>''
                   @ ''4. Submit to Raycast Store: https://raycast.com/contribute\<newline>\<newline>''
                   @ clipboard @ '' Extension Details:\<newline>''
                   @ bullet @ '' Name: '' @ nm @ ''\<newline>''
                   @ bullet @ '' Title: '' @ title @ ''\<newline>''
                   @ bullet @ '' Description: '' @ description @ ''\<newline>''
                   @ bullet @ '' Author: '' @ author @ ''\<newline>''
                   @ bullet @ '' License: '' @ license @ ''\<newline>\<newline>''
                   @ link_mark
                   @ '' Publishing Documentation: https://developers.raycast.com/store/publishing'')
         | _ \<Rightarrow> None)\<close>

definition publish :: "env \<Rightarrow> string list \<Rightarrow> string \<Rightarrow> response \<times> string list" where
  \<comment> \<open>the inner \<open>try\<close> of the case \<open>publish\<close>\<close>
  \<open>publish e h path =
     (let caught = (\<lambda>m h'.
            (failure (cross_mark @ '' Extension validation failed: '' @ m
                      @ ''\<newline>\<newline>Ensure the path contains a valid Raycast extension with package.json''),
             h'))
      in case execAsync e h (cat_command (path @ ''/package.json'')) None of
           (Inl err, h1) \<Rightarrow> caught (message err) h1
         | (Inr r, h1) \<Rightarrow>
             (case JSON_parse e (stdout r) of
                Inl err \<Rightarrow> caught (message err) h1
              | Inr packageJson \<Rightarrow>
                  if packageJson = JNull then
                    caught (error_text e (ReadPropertyOfNull ''raycast'')) h1
                  else
                    (let raycastConfig =
                           (case json_or (json_member packageJson ''raycast'')
                                   (Some (JObject [])) of
                              Some c \<Rightarrow> c | None \<Rightarrow> JObject []);
                         missingFields =
                           filter (\<lambda>field. \<not> json_truthy (json_member packageJson field)
                                          \<and> \<not> json_truthy (json_member raycastConfig field))
                             requiredFields
                     in if missingFields \<noteq> [] then
                          (failure (cross_mark
                                    @ '' Extension validation failed. Missing required fields:\<newline>\<newline>''
                                    @ separated ''\<newline>''
                                        (map (\<lambda>f. bullet @ '' '' @ f) missingFields)
                                    @ ''\<newline>\<newline>'' @ books
                                    @ '' See: https://developers.raycast.com/extension-manifest''),
                           h1)
                        else
                          (case publishing_guide path packageJson of
                             None \<Rightarrow> caught (error_text e NotPrimitive) h1
                           | Some guide \<Rightarrow> (success guide, h1)))))\<close>

definition handleExtensionsTool_try ::
  "env \<Rightarrow> string list \<Rightarrow> arguments \<Rightarrow> response \<times> string list" where
  \<open>handleExtensionsTool_try e h a =
     (let caught = (\<lambda>m h'. (failure (cross_mark @ '' Extension action failed: '' @ m), h'))
      in if action a = Some ''list'' then
           (case execAsync e h listCmd None of
              (Inl err, h1) \<Rightarrow> caught (message err) h1
            | (Inr listResult, h1) \<Rightarrow>
                (success (package @ '' Installed Raycast Extensions:\<newline>\<newline>''
                          @ (if stdout listResult \<noteq> [] then stdout listResult
                             else ''Unable to read extensions list'')), h1))
         else if action a = Some ''search'' then
           (if \<not> truthy (query a) then
              (failure (cross_mark @ '' Query parameter required for search''), h)
            else
              (case encodeURIComponent (template (query a)) of
                 None \<Rightarrow> caught (error_text e URIMalformed) h
               | Some encoded \<Rightarrow>
                   (case execAsync e h
                           (open_command (''raycast://extensions/store?search='' @ encoded))
                           None of
                      (Inl err, h1) \<Rightarrow> caught (message err) h1
                    | (Inr _, h1) \<Rightarrow>
                        (success (magnifier @ '' Raycast Store Search: "''
                                  @ template (query a) @ ''"\<newline>\<newline>'' @ check_mark
                                  @ '' Store opened with search results''), h1))))
         else if action a = Some ''install'' then
           (if \<not> truthy (extension_id a) then
              (failure (cross_mark @ '' Extension ID required for installation''), h)
            else
              (case execAsync e h
                      (open_command (''raycast://extensions/store/'' @ template (extension_id a)))
                      None of
                 (Inl err, h1) \<Rightarrow> caught (message err) h1
               | (Inr _, h1) \<Rightarrow>
                   (success (inbox @ '' Installing Extension: '' @ template (extension_id a)
                             @ ''\<newline>\<newline>'' @ check_mark
                             @ '' Extension page opened for installation''), h1)))
         else if action a = Some ''publish'' then
           (if \<not> truthy (publish_path a) then
              (failure (cross_mark @ '' Publish path required''), h)
            else publish e h (template (publish_path a)))
         else if action a = Some ''update'' then
           (case execAsync e h (open_command ''raycast://preferences/extensions'') None of
              (Inl err, h1) \<Rightarrow> caught (message err) h1
            | (Inr _, h1) \<Rightarrow>
                (success (up_arrow @ '' Extension Updates\<newline>\<newline>'' @ check_mark
                          @ '' Extensions preferences opened. Check for available updates.''),
                 h1))
         else (failure (cross_mark @ '' Unknown extension action: '' @ template (action a)), h))\<close>

definition handleExtensionsTool ::
  "env \<Rightarrow> string list \<Rightarrow> arguments option \<Rightarrow> (js_error + response) \<times> string list" where
  "handleExtensionsTool e h arg =
     destructured e ''action'' h arg (handleExtensionsTool_try e h)"

subsection \<open>handleWorkflowsTool\<close>

definition step_json :: "nat \<Rightarrow> step \<Rightarrow> json" where
  \<comment> \<open>the object made of a step at an index; a property whose value is \<open>undefined\<close> is
      left out by \<open>JSON.stringify\<close>\<close>
  "step_json i s =
     JObject
       ([(''id'', JString (''step_'' @ decimal (i + 1)))]
        @ (case step_type s of None \<Rightarrow> [] | Some t \<Rightarrow> [(''type'', JString t)])
        @ (case step_action s of None \<Rightarrow> [] | Some t \<Rightarrow> [(''action'', JString t)])
        @ [(''parameters'', JObject (case parameters s of None \<Rightarrow> [] | Some ps \<Rightarrow> ps))])"

definition workflow_json :: "string \<Rightarrow> string \<Rightarrow> step list \<Rightarrow> string \<Rightarrow> json" where
  "workflow_json nm trg sts created =
     JObject
       [(''name'', JString nm),
        (''trigger'', JString trg),
        (''steps'', JArray (map (\<lambda>(i, s). step_json i s) (enumerate 0 sts))),
        (''created'', JString created)]"

definition workflow_list :: string where
  \<open>workflow_list =
     memo @ '' Raycast Workflows:\<newline>\<newline>''
     @ wrench @ '' Quick Actions:\<newline>''
     @ bullet @ '' System Sleep '' @ right_arrow @ '' pmset sleepnow\<newline>''
     @ bullet @ '' Empty Trash '' @ right_arrow @ '' Finder empty trash\<newline>''
     @ bullet @ '' Screenshot '' @ right_arrow @ '' screencapture workflow\<newline>\<newline>''
     @ link_mark @ '' Integrations:\<newline>''
     @ bullet @ '' GitHub '' @ right_arrow @ '' Create issue/PR\<newline>''
     @ bullet @ '' Notion '' @ right_arrow @ '' Quick note\<newline>''
     @ bullet @ '' Slack '' @ right_arrow @ '' Send message\<newline>\<newline>''
     @ light_bulb @ '' Create custom workflows with: raycast_workflows create''\<close>

definition predefinedWorkflows :: "string list" where
  \<comment> \<open>the keys of \<open>predefinedWorkflows\<close>\<close>
  "predefinedWorkflows = [''system-sleep'', ''empty-trash'', ''github-status'']"

definition empty_trash_command :: string where
  \<open>empty_trash_command =
     ''osascript -e "tell application '' @ [CHR 0x5C] @ ''"Finder'' @ [CHR 0x5C]
     @ ''" to empty the trash"''\<close>

text \<open>
  The workflow functions: each returns its text or throws. The table is looked up with
  the name of the request, so the name of a property of \<open>Object.prototype\<close> finds that
  property, and the handler calls it, with no receiver and no argument: \<open>Object()\<close> is an
  empty object, \<open>toString\<close> and \<open>isPrototypeOf\<close> return, the value of \<open>__proto__\<close> is no
  function, and the others throw for want of a receiver.
\<close>

definition call_inherited :: "string \<Rightarrow> builtin_error + string" where
  \<comment> \<open>\<open>`${await workflowFn()}`\<close> for an inherited property\<close>
  "call_inherited p =
     (if p = ''constructor'' then Inr ''[object Object]''
      else if p = ''toString'' then Inr ''[object Undefined]''
      else if p = ''isPrototypeOf'' then Inr ''false''
      else if p = ''__proto__'' then Inl (NotAFunction ''workflowFn'')
      else if p = ''toLocaleString'' then
        Inl (CalledOnUndefined ''Object.prototype.toLocaleString'')
      else Inl NoObject)"

definition github_status :: "AuthConfig \<Rightarrow> env \<Rightarrow> string list \<Rightarrow> js_error + string" where
  \<open>github_status cfg e h =
     (if \<not> hasCredentials cfg ''github'' then Inl (Error ''GitHub credentials not configured'')
      else
        (case fetch_json e h ''https://api.github.com/user''
                [(''Authorization'', ''token '' @ template (getCredential cfg ''github''))] of
           Inl err \<Rightarrow> Inl err
         | Inr u \<Rightarrow>
             if u = JNull then Inl (thrown e (ReadPropertyOfNull ''login''))
             else
               (case renderings [json_member u ''login'', json_member u ''name''] of
                  Some [login, nm] \<Rightarrow>
                    Inr ([CHR 0xF0, CHR 0x9F, CHR 0x91, CHR 0xA4] @ '' GitHub User: '' @ login
                         @ '' ('' @ nm @ '')'')
                | _ \<Rightarrow> Inl (thrown e NotPrimitive))))\<close>

definition handleWorkflowsTool_try ::
  "AuthConfig \<Rightarrow> env \<Rightarrow> string list \<Rightarrow> arguments \<Rightarrow> response \<times> string list" where
  \<open>handleWorkflowsTool_try cfg e h a =
     (let caught = (\<lambda>m h'. (failure (cross_mark @ '' Workflow action failed: '' @ m), h'));
          nm = template (workflow_name a);
          executed = (\<lambda>result h'.
            (success (high_voltage @ '' Workflow Executed: "'' @ nm @ ''"\<newline>\<newline>''
                      @ result), h'))
      in if action a = Some ''create'' then
           (case steps a of
              None \<Rightarrow>
                (failure (cross_mark @ '' Name and steps required for workflow creation''), h)
            | Some sts \<Rightarrow>
                if \<not> truthy (workflow_name a) then
                  (failure (cross_mark @ '' Name and steps required for workflow creation''), h)
                else
                  (let trg = template (js_or (trigger a) (Some ''manual''))
                   in (success (wrench @ '' Workflow Created: "'' @ nm @ ''"\<newline>\<newline>''
                                @ clipboard @ '' Configuration:\<newline>```json\<newline>''
                                @ stringify 0 (workflow_json nm trg sts (toISOString e h))
                                @ ''\<newline>```\<newline>\<newline>''
                                @ light_bulb @ '' To execute: raycast_workflows execute "''
                                @ nm @ ''"\<newline>''
                                @ link_mark @ '' Trigger: '' @ trg), h)))
         else if action a = Some ''list'' then (success workflow_list, h)
         else if action a = Some ''execute'' then
           (if \<not> truthy (workflow_name a) then
              (failure (cross_mark @ '' Workflow name required for execution''), h)
            else
              (case get_prop (map (\<lambda>w. (w, w)) predefinedWorkflows) (workflow_name a) of
                 Own w \<Rightarrow>
                   if w = ''system-sleep'' then
                     (case execAsync e h ''pmset sleepnow'' None of
                        (Inl err, h1) \<Rightarrow> caught (message err) h1
                      | (Inr _, h1) \<Rightarrow>
                          executed ([CHR 0xF0, CHR 0x9F, CHR 0x92, CHR 0xA4]
                                    @ '' System sleep initiated'') h1)
                   else if w = ''empty-trash'' then
                     (case execAsync e h empty_trash_command None of
                        (Inl err, h1) \<Rightarrow> caught (message err) h1
                      | (Inr _, h1) \<Rightarrow>
                          executed ([CHR 0xF0, CHR 0x9F, CHR 0x97, CHR 0x91, CHR 0xEF, CHR 0xB8,
                                     CHR 0x8F] @ '' Trash emptied'') h1)
                   else
                     (case github_status cfg e h of
                        Inl err \<Rightarrow> caught (message err) h
                      | Inr result \<Rightarrow> executed result h)
               | Inherited p \<Rightarrow>
                   (case call_inherited p of
                      Inl b \<Rightarrow> caught (error_text e b) h
                    | Inr result \<Rightarrow> executed result h)
               | Absent \<Rightarrow>
                   (failure (cross_mark @ '' Workflow not found: "'' @ nm
                             @ ''"\<newline>\<newline>Available workflows:\<newline>''
                             @ separated ''\<newline>''
                                 (map (\<lambda>w. bullet @ '' '' @ w) predefinedWorkflows)), h)))
         else (failure (cross_mark @ '' Unknown workflow action: '' @ template (action a)), h))\<close>

definition handleWorkflowsTool ::
  "AuthConfig \<Rightarrow> env \<Rightarrow> string list \<Rightarrow> arguments option
     \<Rightarrow> (js_error + response) \<times> string list" where
  "handleWorkflowsTool cfg e h arg =
     destructured e ''action'' h arg (handleWorkflowsTool_try cfg e h)"

subsection \<open>The request handler of the server\<close>

text \<open>
  The handler the server registers for tool calls. The three handlers of this file
  destructure their argument like the others, but nothing here catches what they throw:
  the promise of the request handler rejects (\<open>Inl\<close>).
\<close>

definition callTool ::
  "AuthConfig \<Rightarrow> env \<Rightarrow> string list \<Rightarrow> params \<Rightarrow> (js_error + response) \<times> string list" where
  "callTool cfg e h request =
     (if name request = ''raycast_auth'' then handleAuthTool cfg e h (arguments request)
      else if name request = ''raycast_extensions'' then
        handleExtensionsTool e h (arguments request)
      else if name request = ''raycast_workflows'' then
        handleWorkflowsTool cfg e h (arguments request)
      else (case handleToolCall e h request of (r, h') \<Rightarrow> (Inr r, h')))"

section \<open>The tool catalogue\<close>


definition authTools_names :: "string list" where
  \<comment> \<open>the names in \<open>authTools\<close> in index.ts\<close>
  "authTools_names = [''raycast_auth'', ''raycast_extensions'', ''raycast_workflows'']"

section \<open>Concrete machines and requests\<close>

definition engine_message :: "builtin_error \<Rightarrow> string" where
  \<comment> \<open>the messages of V8, the engine of Node.js\<close>
  \<open>engine_message b =
     (case b of
        ReadPropertyOfUndefined p \<Rightarrow>
          ''Cannot read properties of undefined (reading '' @ [CHR 0x27] @ p @ [CHR 0x27] @ '')''
      | ReadPropertyOfNull p \<Rightarrow>
          ''Cannot read properties of null (reading '' @ [CHR 0x27] @ p @ [CHR 0x27] @ '')''
      | DestructureUndefined p \<Rightarrow>
          ''Cannot destructure property '' @ [CHR 0x27] @ p @ [CHR 0x27] @ '' of ''
          @ [CHR 0x27] @ ''args'' @ [CHR 0x27] @ '' as it is undefined.''
      | CommandNotString q \<Rightarrow>
          ''The "command" argument must be of type string. Received ''
          @ (if q = ''undefined'' then ''undefined''
             else if q = ''__proto__'' then ''an instance of Object''
             else ''function '' @ function_name q)
      | NotAFunction f \<Rightarrow> f @ '' is not a function''
      | NoObject \<Rightarrow> ''Cannot convert undefined or null to object''
      | CalledOnUndefined m \<Rightarrow> m @ '' called on null or undefined''
      | NotPrimitive \<Rightarrow> ''Cannot convert object to primitive value''
      | URIMalformed \<Rightarrow> ''URI malformed'')\<close>

definition not_json :: "string \<Rightarrow> js_error + json" where
  \<comment> \<open>\<open>JSON.parse\<close> on a text that is empty, or whose first character after white space
      can begin no JSON value (the messages are those of Node.js 18)\<close>
  "not_json s =
     (case dropWhile (\<lambda>c. c \<in> set [CHR 0x20, CHR 0x09, CHR 0x0A, CHR 0x0D]) s of
        [] \<Rightarrow> Inl (Error ''Unexpected end of JSON input'')
      | c # rest \<Rightarrow>
          Inl (Error (''Unexpected token '' @ [c] @ '' in JSON at position ''
                      @ decimal (length s - length (c # rest)))))"

definition machine ::
  "(string list \<Rightarrow> string \<Rightarrow> js_error + exec_result) \<Rightarrow> (string list \<Rightarrow> string \<Rightarrow> nat) \<Rightarrow> env" where
  \<comment> \<open>a machine without a network, whose commands print no JSON and write nothing to
      their standard error before they end\<close>
  "machine ends lasts =
     \<lparr>settle = ends, duration = lasts, written = (\<lambda>h c ms. ''''),
      fetch_json = (\<lambda>h url headers. Inl (Error ''fetch failed'')),
      JSON_parse = not_json,
      toISOString = (\<lambda>h. ''2024-01-01T00:00:00.000Z''),
      error_text = engine_message\<rparr>"

definition answering :: "string \<Rightarrow> env" where
  \<comment> \<open>every command succeeds at once and prints the same output\<close>
  "answering out = machine (\<lambda>h c. Inr \<lparr>stdout = out, stderr = ''''\<rparr>) (\<lambda>h c. 0)"

definition rejecting :: "js_error \<Rightarrow> env" where
  \<comment> \<open>every command fails at once with the same error\<close>
  "rejecting err = machine (\<lambda>h c. Inl err) (\<lambda>h c. 0)"

definition lasting :: "nat \<Rightarrow> env" where
  \<comment> \<open>every command runs for so many milliseconds and then succeeds, printing nothing\<close>
  "lasting ms = machine (\<lambda>h c. Inr \<lparr>stdout = '''', stderr = ''''\<rparr>) (\<lambda>h c. ms)"

definition no_arguments :: arguments where
  \<comment> \<open>the empty arguments object\<close>
  "no_arguments =
     \<lparr>query = None, execute = None, command = None, extension = None, args = None,
      action = None, text_value = None, index = None, shortcut = None, custom_key = None,
      func = None, confirm = None, service = None, extension_id = None, publish_path = None,
      workflow_name = None, steps = None, trigger = None\<rparr>"

definition no_credentials :: AuthConfig where
  \<comment> \<open>a configuration with nothing in it\<close>
  "no_credentials =
     \<lparr>raycastApiKey = None, raycastTeamId = None, githubToken = None, notionToken = None,
      figmaToken = None, slackToken = None, linearToken = None, jiraToken = None\<rparr>"

definition github_only :: AuthConfig where
  \<comment> \<open>a configuration with one token\<close>
  "github_only = no_credentials\<lparr>githubToken := Some ''ghp_token''\<rparr>"


section \<open>The claimed form of a custom key combination\<close>

text \<open>
  The words of the claim about custom key combinations, as a definition of their own:
  the AppleScript name of a modifier token.
\<close>

definition applescript_modifier :: "string \<Rightarrow> string" where
  "applescript_modifier m =
     (if m = ''cmd'' then ''command down''
      else if m = ''shift'' then ''shift down''
      else if m = ''alt'' then ''option down''
      else ''control down'')"

section \<open>Command descriptors\<close>

text \<open>
  The handlers build each command where they run it; nothing in the code is called a
  resolver. What the specification calls resolving a request is written here as a
  function of the request alone: the descriptors of the commands the request asks for, in
  their order, each with its payload, its kind (read off the payload), its confirmation
  requirement and, for a destructive system function, the name the dialog shows. A
  descriptor that requires confirmation stands for two invocations, the dialog first.
\<close>

datatype kind = AppActivate | UrlTrigger | ScriptedAutomation | ShellCommand

record descriptor =
  kind :: kind
  payload :: string
  requiresConfirmation :: bool
  destructiveLabel :: "string option"

definition kind_of :: "string \<Rightarrow> kind" where
  \<open>kind_of p =
     (if prefix ''open -a '' p then AppActivate
      else if prefix ''open "'' p then UrlTrigger
      else if prefix ''osascript '' p then ScriptedAutomation
      else ShellCommand)\<close>

definition plain :: "string \<Rightarrow> descriptor" where
  "plain p =
     \<lparr>kind = kind_of p, payload = p, requiresConfirmation = False, destructiveLabel = None\<rparr>"

definition url_trigger :: "string \<Rightarrow> descriptor" where
  "url_trigger url = plain (open_command url)"

definition resolve_search :: "arguments \<Rightarrow> descriptor list" where
  "resolve_search a =
     (case encodeURIComponent (template (query a)) of
        None \<Rightarrow> []
      | Some encoded \<Rightarrow>
          [url_trigger (''raycast://script-commands/search?query='' @ encoded),
           plain (osascript (search_appleScript (query a)
                               (case execute a of None \<Rightarrow> False | Some b \<Rightarrow> b)))])"

definition resolve_open :: "arguments \<Rightarrow> descriptor list" where
  "resolve_open a =
     (if truthy (command a) then
        (let looked = get_prop commandMap (command a);
             mappedCommand = (if property_truthy looked then property_string looked
                              else ''extensions/'' @ template (command a))
         in if truthy (args a) then
              (case encodeURIComponent (template (args a)) of
                 None \<Rightarrow> []
               | Some encoded \<Rightarrow>
                   [url_trigger (''raycast://'' @ mappedCommand @ ''?arguments='' @ encoded)])
            else [url_trigger (''raycast://'' @ mappedCommand)])
      else if truthy (extension a) then
        [url_trigger (''raycast://extensions/'' @ template (extension a))]
      else [plain ''open -a Raycast''])"

definition resolve_clipboard :: "arguments \<Rightarrow> descriptor list" where
  \<open>resolve_clipboard a =
     (if action a = Some ''show'' then [url_trigger clipboard_history_url]
      else if action a = Some ''clear'' then [plain (osascript clearScript)]
      else if action a = Some ''copy'' then
        (if truthy (text_value a) then [plain (echo_to_pbcopy (template (text_value a)))]
         else [])
      else if action a = Some ''paste'' then
        (case index a of
           Some i \<Rightarrow>
             [url_trigger clipboard_history_url,
              plain (tell_system_events (''key code 125 repeat '' @ i @ '' times'')),
              plain (tell_system_events ''key code 36'')]
         | None \<Rightarrow> [plain (tell_system_events ''keystroke "v" using command down'')])
      else [])\<close>

definition resolve_shortcut :: "arguments \<Rightarrow> descriptor list" where
  "resolve_shortcut a =
     (if truthy (custom_key a) then
        [plain (osascript (shortcutScript (template (custom_key a))))]
      else if truthy (shortcut a) \<and> property_truthy (get_prop shortcuts (shortcut a)) then
        [url_trigger (property_string (get_prop shortcuts (shortcut a)))]
      else [])"

definition resolve_window :: "arguments \<Rightarrow> descriptor list" where
  "resolve_window a =
     (case windowScript (action a) of Inl err \<Rightarrow> [] | Inr script \<Rightarrow> [plain (osascript script)])"

definition resolve_system :: "arguments \<Rightarrow> descriptor list" where
  "resolve_system a =
     (case get_prop systemCommands (func a) of
        Own c \<Rightarrow>
          (if c = [] then []
           else [\<lparr>kind = kind_of c, payload = c,
                  requiresConfirmation =
                    (confirm a \<noteq> Some False \<and> array_includes destructive (func a)),
                  destructiveLabel =
                    (if array_includes destructive (func a) then func a else None)\<rparr>])
      | Inherited q \<Rightarrow> []
      | Absent \<Rightarrow> [])"

definition resolve_auth :: "arguments \<Rightarrow> descriptor list" where
  "resolve_auth a =
     (if action a = Some ''oauth'' \<and> truthy (service a)
         \<and> property_truthy (get_prop oauthUrls (service a))
      then [url_trigger (property_string (get_prop oauthUrls (service a)))]
      else [])"

definition resolve_extensions :: "arguments \<Rightarrow> descriptor list" where
  "resolve_extensions a =
     (if action a = Some ''list'' then [plain listCmd]
      else if action a = Some ''search'' then
        (if truthy (query a) then
           (case encodeURIComponent (template (query a)) of
              None \<Rightarrow> []
            | Some encoded \<Rightarrow> [url_trigger (''raycast://extensions/store?search='' @ encoded)])
         else [])
      else if action a = Some ''install'' then
        (if truthy (extension_id a)
         then [url_trigger (''raycast://extensions/store/'' @ template (extension_id a))]
         else [])
      else if action a = Some ''publish'' then
        (if truthy (publish_path a)
         then [plain (cat_command (template (publish_path a) @ ''/package.json''))]
         else [])
      else if action a = Some ''update'' then [url_trigger ''raycast://preferences/extensions'']
      else [])"

definition resolve_workflows :: "arguments \<Rightarrow> descriptor list" where
  "resolve_workflows a =
     (if action a = Some ''execute'' \<and> workflow_name a = Some ''system-sleep''
      then [plain ''pmset sleepnow'']
      else if action a = Some ''execute'' \<and> workflow_name a = Some ''empty-trash''
      then [plain empty_trash_command]
      else [])"

definition resolve :: "params \<Rightarrow> descriptor list" where
  "resolve request =
     (case arguments request of
        None \<Rightarrow> []
      | Some a \<Rightarrow>
          if name request = ''raycast_search'' then resolve_search a
          else if name request = ''raycast_open'' then resolve_open a
          else if name request = ''raycast_clipboard'' then resolve_clipboard a
          else if name request = ''raycast_shortcut'' then resolve_shortcut a
          else if name request = ''raycast_window'' then resolve_window a
          else if name request = ''raycast_system'' then resolve_system a
          else if name request = ''raycast_auth'' then resolve_auth a
          else if name request = ''raycast_extensions'' then resolve_extensions a
          else if name request = ''raycast_workflows'' then resolve_workflows a
          else [])"

definition invocations :: "descriptor \<Rightarrow> string list" where
  \<comment> \<open>what running a descriptor to its end hands to \<open>execAsync\<close>\<close>
  "invocations d =
     (if requiresConfirmation d then [osascript (confirmScript (destructiveLabel d))] else [])
     @ [payload d]"

definition obliging :: "env \<Rightarrow> bool" where
  \<comment> \<open>every command succeeds and prints \<open>confirmed\<close>, white space aside\<close>
  "obliging e \<longleftrightarrow>
     (\<forall>h c. case settle e h c of Inl err \<Rightarrow> False | Inr r \<Rightarrow> trim (stdout r) = ''confirmed'')"

text \<open>
  The confirmation gate and the executor of the specification, on a machine: the
  descriptors are run one after the other; a descriptor that requires confirmation is run
  only when its dialog has succeeded with an output that trims to \<open>confirmed\<close>; the first
  command that fails, and the first dialog that is not confirmed, end the run. The result
  is the list of the commands that were run.
\<close>

fun executed :: "env \<Rightarrow> string list \<Rightarrow> descriptor list \<Rightarrow> string list" where
  "executed e h [] = []"
| "executed e h (d # ds) =
     (if requiresConfirmation d then
        osascript (confirmScript (destructiveLabel d))
        # (case settle e h (osascript (confirmScript (destructiveLabel d))) of
             Inl err \<Rightarrow> []
           | Inr r \<Rightarrow>
               if trim (stdout r) = ''confirmed'' then
                 payload d
                 # (case settle e (h @ [osascript (confirmScript (destructiveLabel d))])
                           (payload d) of
                      Inl err \<Rightarrow> []
                    | Inr r' \<Rightarrow>
                        executed e (h @ [osascript (confirmScript (destructiveLabel d)),
                                         payload d]) ds)
               else [])
      else
        payload d
        # (case settle e h (payload d) of
             Inl err \<Rightarrow> []
           | Inr r \<Rightarrow> executed e (h @ [payload d]) ds))"

declare executed.simps(2) [simp del]

section \<open>Quoting in a shell command\<close>




section \<open>Requests, machines and evaluation\<close>

lemma destructured_Some:
  "destructured e p h (Some a) body = (Inr (fst (body a)), snd (body a))"
  by (simp add: destructured_def split: prod.split)

lemma destructured_None:
  "destructured e p h None body = (Inl (thrown e (DestructureUndefined p)), h)"
  by (simp add: destructured_def)

lemmas handlers =
  handleRaycastSearch_def handleRaycastOpen_def handleRaycastClipboard_def
  handleRaycastShortcut_def handleRaycastWindow_def handleRaycastSystem_def
  handleAuthTool_def handleExtensionsTool_def handleWorkflowsTool_def

lemma handleToolCall_try:
  "handleToolCall e h \<lparr>name = ''raycast_search'', arguments = Some a\<rparr>
     = handleRaycastSearch_try e h a"
  "handleToolCall e h \<lparr>name = ''raycast_open'', arguments = Some a\<rparr>
     = handleRaycastOpen_try e h a"
  "handleToolCall e h \<lparr>name = ''raycast_clipboard'', arguments = Some a\<rparr>
     = handleRaycastClipboard_try e h a"
  "handleToolCall e h \<lparr>name = ''raycast_shortcut'', arguments = Some a\<rparr>
     = handleRaycastShortcut_try e h a"
  "handleToolCall e h \<lparr>name = ''raycast_window'', arguments = Some a\<rparr>
     = handleRaycastWindow_try e h a"
  "handleToolCall e h \<lparr>name = ''raycast_system'', arguments = Some a\<rparr>
     = handleRaycastSystem_try e h a"
  by (simp_all add: handleToolCall_def handlers destructured_Some)

lemma callTool_handleToolCall:
  assumes "name request \<notin> set authTools_names"
  shows "callTool cfg e h request
           = (Inr (fst (handleToolCall e h request)), snd (handleToolCall e h request))"
  using assms by (simp add: callTool_def authTools_names_def case_prod_beta)

lemma run_without_timeout: "run e h c None = settle e h c"
  by (simp add: run_def)

lemma machine_fields:
  "settle (machine ends lasts) = ends"
  "duration (machine ends lasts) = lasts"
  "written (machine ends lasts) h c ms = ''''"
  "error_text (machine ends lasts) = engine_message"
  by (simp_all add: machine_def)

lemma run_answering: "run (answering out) h c t = Inr \<lparr>stdout = out, stderr = ''''\<rparr>"
  by (simp add: run_def answering_def machine_fields split: option.split)


lemma error_text_machines:
  "error_text (answering out) = engine_message" "error_text (rejecting err) = engine_message"
  by (simp_all add: answering_def rejecting_def machine_fields)

lemma BOGUS: "toUpperCase ''bogus'' = ''BOGUS''"
  by code_simp

lemma encoded_undefined: "encodeURIComponent ''undefined'' = Some ''undefined''"
  by code_simp

section \<open>Unknown tool names\<close>



section \<open>A shortcut request that names no shortcut\<close>

text \<open>
  C10, as the claim states it: a raycast_shortcut request that provides neither
  \<open>shortcut\<close> nor \<open>custom_key\<close> is answered by a success response. The request that
  provides no arguments at all provides neither, and its answer is an error response: the
  handler destructures its argument before its \<open>try\<close>, and \<open>handleToolCall\<close> catches the
  TypeError.
\<close>

theorem shortcut_without_arguments_is_error:
  \<open>callTool no_credentials (answering '''') [] \<lparr>name = ''raycast_shortcut'', arguments = None\<rparr>
     = (Inr \<lparr>content =
               [\<lparr>item_type = ''text'',
                 item_text = ''Error executing raycast_shortcut: Cannot destructure property ''
                             @ [CHR 0x27] @ ''shortcut'' @ [CHR 0x27] @ '' of '' @ [CHR 0x27]
                             @ ''args'' @ [CHR 0x27] @ '' as it is undefined.''\<rparr>],
             isError = Some True\<rparr>, [])\<close>
  by (simp add: callTool_def handleToolCall_def handlers destructured_None thrown_def
        error_text_machines engine_message_def failure_def)

text \<open>
  C10, amended. When the arguments object of a raycast_shortcut request holds neither
  \<open>shortcut\<close> nor \<open>custom_key\<close>, the handler executes nothing and answers with a success
  response (no \<open>isError\<close>) whose text says that a shortcut, named \<open>undefined\<close>, was
  triggered and executed; the server's handler returns that response. When the request
  has no arguments object, nothing is executed either, and the answer is the error
  response \<open>Error executing raycast_shortcut: <message>\<close> with the message of the
  TypeError that the destructuring throws.
\<close>

theorem shortcut_without_fields:
  "(shortcut a = None \<and> custom_key a = None \<longrightarrow>
      handleRaycastShortcut e h (Some a) =
        (Inr \<lparr>content = [\<lparr>item_type = ''text'',
                           item_text = keyboard @ '' Shortcut Triggered: undefined''
                                       @ ''\<newline>\<newline>'' @ check_mark
                                       @ '' Shortcut executed successfully''\<rparr>],
               isError = None\<rparr>, h)
      \<and> callTool cfg e h \<lparr>name = ''raycast_shortcut'', arguments = Some a\<rparr>
          = handleRaycastShortcut e h (Some a))
   \<and> callTool cfg e h \<lparr>name = ''raycast_shortcut'', arguments = None\<rparr>
       = (Inr \<lparr>content =
                 [\<lparr>item_type = ''text'',
                   item_text = ''Error executing raycast_shortcut: ''
                               @ error_text e (DestructureUndefined ''shortcut'')\<rparr>],
               isError = Some True\<rparr>, h)"
  by (simp add: callTool_def handleToolCall_def handlers destructured_Some destructured_None
        handleRaycastShortcut_try_def thrown_def truthy_def js_or_def template_def success_def
        failure_def)

theorem shortcut_without_fields_witness:
  "shortcut no_arguments = None \<and> custom_key no_arguments = None
   \<and> callTool no_credentials (answering '''') []
         \<lparr>name = ''raycast_shortcut'', arguments = Some no_arguments\<rparr> =
       (Inr \<lparr>content = [\<lparr>item_type = ''text'',
                          item_text = keyboard @ '' Shortcut Triggered: undefined''
                                      @ ''\<newline>\<newline>'' @ check_mark
                                      @ '' Shortcut executed successfully''\<rparr>],
              isError = None\<rparr>, [])"
  using shortcut_without_fields [of no_arguments "answering ''''" "[]" no_credentials]
  by (simp add: no_arguments_def)

section \<open>A clipboard action outside the four cases\<close>

text \<open>
  C3. The claim asks for an error response on every action outside a tool's table. For
  raycast_clipboard the \<open>switch\<close> has no \<open>default\<close>: the action \<open>bogus\<close> runs nothing and is
  answered, on every machine, by the success response \<open>Clipboard BOGUS ... Action
  completed successfully\<close>, without \<open>isError\<close>.
\<close>

theorem clipboard_unknown_action_succeeds:
  "handleToolCall e h \<lparr>name = ''raycast_clipboard'',
                        arguments = Some (no_arguments\<lparr>action := Some ''bogus''\<rparr>)\<rparr> =
     (\<lparr>content = [\<lparr>item_type = ''text'',
                   item_text = clipboard @ '' Clipboard BOGUS'' @ ''\<newline>\<newline>'' @ check_mark
                               @ '' Action completed successfully''\<rparr>],
       isError = None\<rparr>, h)"
  by (simp add: handleToolCall_def handlers destructured_Some handleRaycastClipboard_try_def
        no_arguments_def truthy_def success_def BOGUS)

text \<open>
  The window and system handlers do reject a value outside their tables, with an error
  that names it and without running anything.
\<close>

lemma window_unknown_action_is_error:
  assumes "action a \<notin> {Some ''show'', Some ''hide'', Some ''toggle'', Some ''focus''}"
  shows "handleRaycastWindow e h (Some a) =
           (Inr (failure (cross_mark @ '' Window action failed: Unknown window action: ''
                          @ template (action a))), h)"
  using assms
  by (simp add: handlers destructured_Some handleRaycastWindow_try_def windowScript_def
        Error_def)

lemma system_unknown_function_is_error:
  assumes "get_prop systemCommands (func a) = Absent"
  shows "handleRaycastSystem e h (Some a) =
           (Inr (failure (cross_mark @ '' Unknown system function: '' @ template (func a))), h)"
  using assms
  by (simp add: handlers destructured_Some handleRaycastSystem_try_def property_truthy_def)

section \<open>A search request without a query\<close>

text \<open>
  C6. The claim asks that a request missing a required field is answered by an error
  before anything is executed. \<open>query\<close> is the required field of raycast_search, and
  \<open>handleRaycastSearch\<close> does not look for it: on every machine the request with an empty
  arguments object first runs \<open>open "raycast://script-commands/search?query=undefined"\<close>,
  and on a machine where the commands succeed it is answered by a success response.
\<close>

theorem search_without_query_executes:
  \<open>(\<exists>rest. snd (callTool cfg e h \<lparr>name = ''raycast_search'', arguments = Some no_arguments\<rparr>)
            = h @ ''open "raycast://script-commands/search?query=undefined"'' # rest)
   \<and> callTool no_credentials (answering '''') []
        \<lparr>name = ''raycast_search'', arguments = Some no_arguments\<rparr>
     = (Inr \<lparr>content = [\<lparr>item_type = ''text'',
                           item_text = magnifier @ '' Raycast Search: "undefined"''
                                       @ ''\<newline>\<newline>'' @ check_mark
                                       @ '' Raycast opened with search query''\<rparr>],
              isError = None\<rparr>,
        [''open "raycast://script-commands/search?query=undefined"'',
         osascript (search_appleScript None False)])\<close>
proof -
  have first: \<open>\<exists>rest. snd (handleRaycastSearch_try e h no_arguments)
                  = h @ ''open "raycast://script-commands/search?query=undefined"'' # rest\<close>
    by (cases "settle e h ''open \"raycast://script-commands/search?query=undefined\"''")
       (auto simp: handleRaycastSearch_try_def no_arguments_def triggerRaycastURL_def
          open_command_def execAsync_def run_without_timeout template_def encoded_undefined
          Let_def split: sum.splits)
  have all: \<open>handleRaycastSearch_try (answering '''') [] no_arguments
     = (\<lparr>content = [\<lparr>item_type = ''text'',
                      item_text = magnifier @ '' Raycast Search: "undefined"''
                                  @ ''\<newline>\<newline>'' @ check_mark
                                  @ '' Raycast opened with search query''\<rparr>],
         isError = None\<rparr>,
        [''open "raycast://script-commands/search?query=undefined"'',
         osascript (search_appleScript None False)])\<close>
    by (simp add: handleRaycastSearch_try_def no_arguments_def triggerRaycastURL_def
          open_command_def execAsync_def template_def encoded_undefined run_answering
          success_def Let_def)
  show ?thesis
    using first all
    by (simp add: callTool_handleToolCall authTools_names_def handleToolCall_try)
qed

text \<open>
  The two requests the claim gives as examples are answered as it says: an error and an
  unchanged history.
\<close>

lemma auth_validate_requires_service:
  assumes "action a = Some ''validate''" and "\<not> truthy (service a)"
  shows "callTool cfg e h \<lparr>name = ''raycast_auth'', arguments = Some a\<rparr>
           = (Inr (failure (cross_mark @ '' Service parameter required for validation'')), h)"
  using assms
  by (simp add: callTool_def handlers destructured_Some handleAuthTool_try_def)

lemma clipboard_copy_requires_text:
  assumes "action a = Some ''copy''" and "\<not> truthy (text_value a)"
  shows "callTool cfg e h \<lparr>name = ''raycast_clipboard'', arguments = Some a\<rparr>
           = (Inr (failure (cross_mark @ '' Text is required for copy action'')), h)"
  using assms
  by (simp add: callTool_def handleToolCall_def handlers destructured_Some
        handleRaycastClipboard_try_def)

section \<open>Credentials\<close>

text \<open>
  C9. \<open>hasCredentials\<close> is true of a service exactly when \<open>getCredential\<close> returns a
  credential that is defined and not empty; for a service outside the seven known ones
  \<open>hasCredentials\<close> is false and \<open>getCredential\<close> is undefined.
\<close>

theorem hasCredentials_iff_getCredential:
  "(hasCredentials cfg s \<longleftrightarrow> (\<exists>v. getCredential cfg s = Some v \<and> v \<noteq> []))
   \<and> (s \<notin> {''raycast'', ''github'', ''notion'', ''figma'', ''slack'', ''linear'', ''jira''}
        \<longrightarrow> \<not> hasCredentials cfg s \<and> getCredential cfg s = None)"
proof
  show "hasCredentials cfg s \<longleftrightarrow> (\<exists>v. getCredential cfg s = Some v \<and> v \<noteq> [])"
    by (simp add: hasCredentials_def getCredential_def Let_def truthy_def split: option.splits)
next
  show "s \<notin> {''raycast'', ''github'', ''notion'', ''figma'', ''slack'', ''linear'', ''jira''}
        \<longrightarrow> \<not> hasCredentials cfg s \<and> getCredential cfg s = None"
  proof
    assume out: "s \<notin> {''raycast'', ''github'', ''notion'', ''figma'', ''slack'', ''linear'', ''jira''}"
    then have "map_of serviceMap s = None"
      by (simp add: serviceMap_def)
    then have "config_property cfg (get_prop serviceMap (Some s)) = None"
      by (simp add: get_prop_def template_def config_property_def split: option.splits)
    then show "\<not> hasCredentials cfg s \<and> getCredential cfg s = None"
      by (simp add: hasCredentials_def getCredential_def Let_def truthy_def)
  qed
qed

theorem hasCredentials_iff_getCredential_witness:
  "''gitlab'' \<notin> {''raycast'', ''github'', ''notion'', ''figma'', ''slack'', ''linear'', ''jira''}
   \<and> \<not> hasCredentials github_only ''gitlab'' \<and> getCredential github_only ''gitlab'' = None
   \<and> hasCredentials github_only ''github''
   \<and> getCredential github_only ''github'' = Some ''ghp_token''"
proof -
  have known: "getCredential github_only ''github'' = Some ''ghp_token''"
    by (simp add: getCredential_def get_prop_def serviceMap_def template_def
          property_truthy_def config_property_def github_only_def no_credentials_def)
  show ?thesis
    using hasCredentials_iff_getCredential [of github_only "''gitlab''"]
          hasCredentials_iff_getCredential [of github_only "''github''"] known
    by simp
qed

section \<open>executeRaycastCommand\<close>

lemma executeRaycastCommand_result:
  "\<exists>obj. executeRaycastCommand e h c = (Inr obj, h @ [c])
        \<and> map fst obj = [''stdout'', ''stderr'']
        \<and> obj = (case run e h c (Some 60000) of
                    Inr r \<Rightarrow> [(''stdout'', stdout r), (''stderr'', stderr r)]
                  | Inl err \<Rightarrow>
                      [(''stdout'', ''''),
                       (''stderr'', if code err = ErrName ''ETIMEDOUT'' then timeout_message
                                    else if message err = [] then ''Raycast command execution failed''
                                    else message err)])"
  by (cases "run e h c (Some 60000)")
     (simp_all add: executeRaycastCommand_def execAsync_def)

text \<open>
  C2. The claim is that an invocation that runs longer than the 60 seconds yields a
  result that tells the timeout: \<open>timedOut: true\<close> and an explanatory message. The code
  looks for an error whose \<open>code\<close> is \<open>ETIMEDOUT\<close> to answer with its timeout message; the
  error of a command that \<open>exec\<close> has ended for its timeout has no such code. So whenever a
  command runs longer than 60000 milliseconds, \<open>executeRaycastCommand\<close> does not throw and
  returns the result of an ordinary failure: an empty \<open>stdout\<close> and, as \<open>stderr\<close>, the text
  \<open>Command failed: <command>\<close> followed by what the command had written to its standard
  error. There is no property \<open>timedOut\<close>, and the timeout message is not returned.
\<close>

theorem timed_out_command_is_reported_as_failed:
  assumes "60000 < duration e h c"
  shows "executeRaycastCommand e h c =
           (Inr [(''stdout'', ''''),
                 (''stderr'', ''Command failed: '' @ c @ ''\<newline>'' @ written e h c 60000)],
            h @ [c])
       \<and> ''Command failed: '' @ c @ ''\<newline>'' @ written e h c 60000 \<noteq> timeout_message
       \<and> map_of [(''stdout'', ''''),
                 (''stderr'', ''Command failed: '' @ c @ ''\<newline>'' @ written e h c 60000)]
           ''timedOut'' = None"
  using assms
  by (simp add: executeRaycastCommand_def execAsync_def run_def timeout_message_def)

theorem timed_out_command_is_reported_as_failed_witness:
  "60000 < duration (lasting 90000) [] ''sleep 90''
   \<and> executeRaycastCommand (lasting 90000) [] ''sleep 90'' =
       (Inr [(''stdout'', ''''), (''stderr'', ''Command failed: sleep 90\<newline>'')],
        [''sleep 90''])"
  using timed_out_command_is_reported_as_failed [of "lasting 90000" "[]" "''sleep 90''"]
  by (simp add: lasting_def machine_fields)

section \<open>The confirmation of destructive system functions\<close>


lemma destructive_commands:
  assumes "f \<in> set destructive"
  shows "\<exists>c. get_prop systemCommands (Some f) = Own c \<and> map_of systemCommands f = Some c
             \<and> c \<noteq> [] \<and> c \<noteq> osascript (confirmScript (Some f))"
  using assms
  by (auto simp: destructive_def get_prop_def systemCommands_def template_def osascript_def)





section \<open>Case conversion and the separator of a key combination\<close>

lemma symbols_from_plus:
  "symbols_from p (s @ CHR ''+'' # t) = symbols_from p s @ Point 0x2B # symbols_from [] t"
  by (induction s arbitrary: p) (simp_all add: continuation_def sequence_length_def)

lemma followed_by_cased_plus:
  "followed_by_cased (xs @ Point 0x2B # ys) = followed_by_cased xs"
proof (induction xs rule: followed_by_cased.induct)
  case 1
  show ?case by (simp add: in_ranges_def case_ignorable_ranges_def cased_ranges_def)
qed simp_all

lemma lower_symbol_context:
  assumes "followed_by_cased before' = followed_by_cased before"
    and "followed_by_cased after' = followed_by_cased after"
  shows "lower_symbol before' u after' = lower_symbol before u after"
  unfolding lower_symbol_def assms by (rule refl)

lemma lower_symbols_before:
  "lower_symbols (xs @ Point 0x2B # ys) r = lower_symbols xs r"
proof (induction r arbitrary: xs)
  case Nil
  show ?case by simp
next
  case (Cons u r)
  have "lower_symbol (xs @ Point 0x2B # ys) u r = lower_symbol xs u r"
    by (rule lower_symbol_context) (simp_all add: followed_by_cased_plus)
  moreover have "lower_symbols ((u # xs) @ Point 0x2B # ys) r = lower_symbols (u # xs) r"
    by (rule Cons.IH)
  ultimately show ?case by simp
qed

lemma lower_symbol_of_plus: "lower_symbol before (Point 0x2B) after = [Point 0x2B]"
  by (simp add: lower_symbol_def mapped_def lower_table_def)

lemma lower_symbols_plus:
  "lower_symbols b (m @ Point 0x2B # r) = lower_symbols b m @ Point 0x2B # lower_symbols [] r"
proof (induction m arbitrary: b)
  case Nil
  have "lower_symbols ([] @ Point 0x2B # b) r = lower_symbols [] r"
    by (rule lower_symbols_before)
  then show ?case by (simp add: lower_symbol_of_plus)
next
  case (Cons u m)
  have "lower_symbol b u (m @ Point 0x2B # r) = lower_symbol b u m"
    by (rule lower_symbol_context) (simp_all add: followed_by_cased_plus)
  then show ?case by (simp add: Cons.IH)
qed

lemma bytes_of_plus: "bytes (Point 0x2B) = ''+''"
  by code_simp

lemma toLowerCase_plus:
  "toLowerCase (m @ CHR ''+'' # r) = toLowerCase m @ CHR ''+'' # toLowerCase r"
  by (simp add: toLowerCase_def symbols_def symbols_from_plus lower_symbols_plus bytes_of_plus)


lemma char_of_plus: "char_of (0x2B :: nat) = CHR ''+''"
  by code_simp

lemma char_of_is_plus:
  assumes "char_of (n :: nat) = CHR ''+''"
  shows "n mod 256 = 43"
proof -
  have "(of_char (char_of n) :: nat) = of_char (CHR ''+'')"
    by (simp only: assms)
  then show ?thesis by simp
qed

lemma of_char_is_plus:
  assumes "(of_char b :: nat) = 0x2B"
  shows "b = CHR ''+''"
proof -
  have "char_of (of_char b :: nat) = char_of (0x2B :: nat)"
    by (simp only: assms)
  then show ?thesis by (simp add: char_of_plus)
qed

lemma high_byte_is_no_plus:
  assumes "0x80 \<le> n" and "n < 0x100"
  shows "char_of (n :: nat) \<noteq> CHR ''+''"
proof
  assume "char_of n = CHR ''+''"
  then have "n mod 256 = 43" by (rule char_of_is_plus)
  with assms show False by simp
qed

lemma continuation_byte_is_no_plus: "char_of (0x80 + n mod 0x40 :: nat) \<noteq> CHR ''+''"
proof (rule high_byte_is_no_plus)
  have "n mod 0x40 < 0x40" by simp
  then show "0x80 + n mod 0x40 < 0x100" by linarith
qed simp

lemma utf8_plus:
  assumes "CHR ''+'' \<in> set (utf8 c)"
  shows "c = 0x2B"
proof -
  consider "c < 0x80" | "0x80 \<le> c" "c < 0x800" | "0x800 \<le> c" "c < 0x10000"
    | "0x10000 \<le> c" "c < 0x110000" | "0x110000 \<le> c"
    by linarith
  then show ?thesis
  proof cases
    case 1
    with assms have "char_of c = CHR ''+''"
      by (simp add: utf8_def)
    then have "c mod 256 = 43" by (rule char_of_is_plus)
    with 1 show ?thesis by simp
  next
    case 2
    then have "c div 0x40 < 0x20"
      by (intro less_mult_imp_div_less) simp
    then have "char_of (0xC0 + c div 0x40) \<noteq> CHR ''+''"
      by (intro high_byte_is_no_plus) simp_all
    with assms 2 show ?thesis
      using continuation_byte_is_no_plus [of c] by (simp add: utf8_def)
  next
    case 3
    then have "c div 0x1000 < 0x10"
      by (intro less_mult_imp_div_less) simp
    then have "char_of (0xE0 + c div 0x1000) \<noteq> CHR ''+''"
      by (intro high_byte_is_no_plus) simp_all
    with assms 3 show ?thesis
      using continuation_byte_is_no_plus [of c] continuation_byte_is_no_plus [of "c div 0x40"]
      by (simp add: utf8_def)
  next
    case 4
    then have "c div 0x40000 < 0x10"
      by (intro less_mult_imp_div_less) simp
    then have "char_of (0xF0 + c div 0x40000) \<noteq> CHR ''+''"
      by (intro high_byte_is_no_plus) simp_all
    with assms 4 show ?thesis
      using continuation_byte_is_no_plus [of c] continuation_byte_is_no_plus [of "c div 0x40"]
        continuation_byte_is_no_plus [of "c div 0x1000"]
      by (simp add: utf8_def)
  next
    case 5
    with assms show ?thesis by (simp add: utf8_def)
  qed
qed

lemma bytes_plus:
  assumes "CHR ''+'' \<in> set (bytes u)"
  shows "u = Point 0x2B \<or> u = Stray (CHR ''+'')"
  using assms by (cases u) (auto simp: bytes_def dest: utf8_plus)

lemma sequence_no_plus:
  assumes "p \<noteq> []" and "CHR ''+'' \<notin> set p" and "b \<noteq> CHR ''+''"
    and "u \<in> set (sequence (p @ [b]))"
  shows "u \<noteq> Point 0x2B \<and> u \<noteq> Stray (CHR ''+'')"
proof (cases "utf8 (scalar_value (p @ [b])) = p @ [b]")
  case True
  with assms(4) have u: "u = Point (scalar_value (p @ [b]))"
    by (simp add: sequence_def)
  have "scalar_value (p @ [b]) \<noteq> 0x2B"
  proof
    assume "scalar_value (p @ [b]) = 0x2B"
    with True have "utf8 0x2B = p @ [b]" by simp
    with assms(1) show False by (simp add: utf8_def)
  qed
  with u show ?thesis by simp
next
  case False
  with assms show ?thesis by (auto simp: sequence_def)
qed

lemma symbols_from_no_plus:
  assumes "CHR ''+'' \<notin> set p" and "CHR ''+'' \<notin> set s" and "u \<in> set (symbols_from p s)"
  shows "u \<noteq> Point 0x2B \<and> u \<noteq> Stray (CHR ''+'')"
  using assms
proof (induction s arbitrary: p)
  case Nil
  then show ?case by auto
next
  case (Cons b s)
  then have b: "b \<noteq> CHR ''+''" and s: "CHR ''+'' \<notin> set s"
    by auto
  show ?case
  proof (cases "p \<noteq> [] \<and> continuation b")
    case True
    show ?thesis
    proof (cases "length p + 1 = sequence_length (hd p)")
      case complete: True
      with True Cons.prems(3)
      have "u \<in> set (sequence (p @ [b])) \<or> u \<in> set (symbols_from [] s)"
        by simp
      then show ?thesis
        using sequence_no_plus [of p b u] True Cons.prems(1) b Cons.IH [of "[]"] s
        by auto
    next
      case False
      with True Cons.prems(3) have "u \<in> set (symbols_from (p @ [b]) s)"
        by simp
      then show ?thesis
        using Cons.IH [of "p @ [b]"] Cons.prems(1) b s by auto
    qed
  next
    case False
    with Cons.prems(3) have
      "u \<in> Stray ` set p \<or> u = Point (of_char b) \<and> (of_char b :: nat) < 0x80
         \<or> u \<in> set (symbols_from [] s) \<or> u \<in> set (symbols_from [b] s) \<or> u = Stray b"
      by (auto split: if_splits)
    then show ?thesis
      using Cons.IH [of "[]"] Cons.IH [of "[b]"] Cons.prems(1) b s
      by (auto dest: of_char_is_plus)
  qed
qed

lemma lower_table_images: "\<forall>(a, z, step, a') \<in> set lower_table. 0x2B < a'"
  by (simp add: lower_table_def)

lemma mapped_lower_no_plus:
  assumes "mapped lower_table c = Some l"
  shows "l \<noteq> 0x2B"
proof -
  from assms obtain entry where found:
    "List.find (\<lambda>(a, z, step, a').
                  a \<le> c \<and> c \<le> z \<and> (c - a) mod step = 0) lower_table = Some entry"
    and l: "l = (case entry of (a, z, step, a') \<Rightarrow> a' + (c - a))"
    by (auto simp: mapped_def)
  from found have "entry \<in> set lower_table"
    by (auto simp: find_Some_iff intro: nth_mem)
  with lower_table_images l show ?thesis
    by (cases entry) fastforce
qed

lemma lower_symbol_no_plus:
  assumes "v \<in> set (lower_symbol before u after)"
    and "v = Point 0x2B \<or> v = Stray (CHR ''+'')"
  shows "u = v"
  using assms
  by (cases u)
     (auto simp: lower_symbol_def dest: mapped_lower_no_plus split: if_splits option.splits)

lemma lower_symbols_no_plus:
  assumes "v \<in> set (lower_symbols before us)"
    and "v = Point 0x2B \<or> v = Stray (CHR ''+'')"
  shows "v \<in> set us"
  using assms
proof (induction us arbitrary: before)
  case Nil
  then show ?case by simp
next
  case (Cons u us)
  from Cons.prems(1) consider "v \<in> set (lower_symbol before u us)"
    | "v \<in> set (lower_symbols (u # before) us)"
    by auto
  then show ?case
  proof cases
    case 1
    from 1 Cons.prems(2) have "u = v" by (rule lower_symbol_no_plus)
    then show ?thesis by simp
  next
    case 2
    from 2 Cons.prems(2) have "v \<in> set us" by (rule Cons.IH)
    then show ?thesis by simp
  qed
qed

lemma toLowerCase_keeps_plus_out:
  assumes "CHR ''+'' \<notin> set s"
  shows "CHR ''+'' \<notin> set (toLowerCase s)"
proof
  assume "CHR ''+'' \<in> set (toLowerCase s)"
  then obtain v where v: "v \<in> set (lower_symbols [] (symbols s))"
    and "CHR ''+'' \<in> set (bytes v)"
    by (auto simp: toLowerCase_def)
  then have plus: "v = Point 0x2B \<or> v = Stray (CHR ''+'')"
    by (auto dest: bytes_plus)
  from v plus have "v \<in> set (symbols_from [] s)"
    unfolding symbols_def by (rule lower_symbols_no_plus)
  with assms have "v \<noteq> Point 0x2B \<and> v \<noteq> Stray (CHR ''+'')"
    by (intro symbols_from_no_plus [of "[]" s v]) simp_all
  with plus show False by blast
qed

section \<open>Custom key combinations\<close>

lemma js_split_without_separator: "d \<notin> set s \<Longrightarrow> js_split d s = [s]"
  by (induction s) auto

lemma js_split_at_separator:
  "d \<notin> set m \<Longrightarrow> js_split d (m @ d # rest) = m # js_split d rest"
  by (induction m) auto

lemma js_split_joined:
  assumes "\<forall>m \<in> set ms. d \<notin> set m" and "d \<notin> set k"
  shows "js_split d (concat (map (\<lambda>m. m @ [d]) ms) @ k) = ms @ [k]"
  using assms
proof (induction ms)
  case Nil
  then show ?case by (simp add: js_split_without_separator)
next
  case (Cons m ms)
  then have "js_split d (m @ d # (concat (map (\<lambda>m. m @ [d]) ms) @ k))
               = m # js_split d (concat (map (\<lambda>m. m @ [d]) ms) @ k)"
    by (intro js_split_at_separator) simp
  with Cons show ?case by simp
qed

lemma toLowerCase_joined:
  "toLowerCase (concat (map (\<lambda>m. m @ ''+'') ms) @ k)
     = concat (map (\<lambda>m. m @ ''+'') (map toLowerCase ms)) @ toLowerCase k"
proof (induction ms)
  case Nil
  then show ?case by simp
next
  case (Cons m ms)
  have "toLowerCase (m @ CHR ''+'' # (concat (map (\<lambda>m. m @ ''+'') ms) @ k))
          = toLowerCase m @ CHR ''+'' # toLowerCase (concat (map (\<lambda>m. m @ ''+'') ms) @ k)"
    by (rule toLowerCase_plus)
  with Cons show ?case by simp
qed

lemma parsed_keys:
  assumes "\<forall>m \<in> set ms. CHR ''+'' \<notin> set m" and "CHR ''+'' \<notin> set k"
  shows "map trim (js_split (CHR ''+'') (toLowerCase (concat (map (\<lambda>m. m @ ''+'') ms) @ k)))
           = map (\<lambda>m. trim (toLowerCase m)) ms @ [trim (toLowerCase k)]"
proof -
  have "\<forall>m \<in> set (map toLowerCase ms). CHR ''+'' \<notin> set m"
    using assms(1) by (auto simp: toLowerCase_keeps_plus_out)
  moreover have "CHR ''+'' \<notin> set (toLowerCase k)"
    using assms(2) by (rule toLowerCase_keeps_plus_out)
  ultimately have
    "js_split (CHR ''+'') (concat (map (\<lambda>m. m @ ''+'') (map toLowerCase ms)) @ toLowerCase k)
       = map toLowerCase ms @ [toLowerCase k]"
    by (rule js_split_joined)
  then show ?thesis
    by (simp add: toLowerCase_joined comp_def)
qed

lemma modifier_string:
  "slice_0_minus2
     ((if ''cmd'' \<in> S then ''command down, '' else '''')
      @ (if ''shift'' \<in> S then ''shift down, '' else '''')
      @ (if ''alt'' \<in> S then ''option down, '' else '''')
      @ (if ''ctrl'' \<in> S then ''control down, '' else ''''))
   = separated '', '' (map applescript_modifier (filter (\<lambda>m. m \<in> S) modifier_tokens))"
  by (simp add: slice_0_minus2_def modifier_tokens_def applescript_modifier_def)

text \<open>
  C7. A custom key combination is taken of the claimed form: modifier tokens, each
  followed by \<open>+\<close>, and then one key token \<open>k\<close>; no token holds a \<open>+\<close>, every modifier
  token is one of cmd, shift, alt, ctrl once lower-cased and trimmed, and the key token
  is not. For such an input the handler runs exactly one command: the osascript whose
  keystroke is the lower-cased, trimmed key and whose \<open>using\<close> clause lists the
  AppleScript names of exactly the modifiers present in the input, in the order command,
  shift, option, control, separated by a comma and a space. Lower-casing is that of
  \<open>String.prototype.toLowerCase\<close> on the whole text (the Unicode mappings, not only
  the letters A to Z), and trimming is that of \<open>String.prototype.trim\<close>.
\<close>

theorem custom_key_payload:
  assumes "\<forall>m \<in> set ms. CHR ''+'' \<notin> set m \<and> trim (toLowerCase m) \<in> set modifier_tokens"
    and "CHR ''+'' \<notin> set k"
    and "trim (toLowerCase k) \<notin> set modifier_tokens"
    and "custom_key a = Some (concat (map (\<lambda>m. m @ ''+'') ms) @ k)"
    and "concat (map (\<lambda>m. m @ ''+'') ms) @ k \<noteq> []"
  shows \<open>snd (handleRaycastShortcut e h (Some a)) =
           h @ [osascript
                  (''tell application "System Events" to keystroke "''
                   @ trim (toLowerCase k) @ ''" using {''
                   @ separated '', ''
                       (map applescript_modifier
                          (filter (\<lambda>t. t \<in> set (map (\<lambda>m. trim (toLowerCase m)) ms))
                             modifier_tokens))
                   @ ''}'')]\<close>
proof -
  let ?ck = "concat (map (\<lambda>m. m @ ''+'') ms) @ k"
  let ?key = "trim (toLowerCase k)"
  let ?mods = "map (\<lambda>m. trim (toLowerCase m)) ms"
  have keys: "map trim (js_split (CHR ''+'') (toLowerCase ?ck)) = ?mods @ [?key]"
    using assms(1,2) by (intro parsed_keys) auto
  have all: "\<forall>t \<in> set ?mods. t \<in> set modifier_tokens"
    using assms(1) by auto
  have mods: "filter (\<lambda>k. k \<in> set modifier_tokens) (?mods @ [?key]) = ?mods"
    using all assms(3) by (auto simp: filter_id_conv)
  have key: "List.find (\<lambda>k. k \<notin> set modifier_tokens) (?mods @ [?key]) = Some ?key"
    using all assms(3) by (induction ms) auto
  have script: \<open>shortcutScript ?ck =
      ''tell application "System Events" to keystroke "'' @ ?key @ ''" using {''
      @ separated '', '' (map applescript_modifier (filter (\<lambda>t. t \<in> set ?mods) modifier_tokens))
      @ ''}''\<close>
    unfolding shortcutScript_def Let_def keys mods key
    by (simp only: modifier_string template_def option.case)
  have "truthy (custom_key a)" and "template (custom_key a) = ?ck"
    using assms(4,5) by (simp_all add: truthy_def template_def)
  then show ?thesis
    by (cases "settle e h (osascript (shortcutScript ?ck))")
       (simp_all add: handlers destructured_Some handleRaycastShortcut_try_def execAsync_def
          run_without_timeout script Let_def)
qed

theorem custom_key_payload_witness:
  \<open>CHR ''+'' \<notin> set ''Cmd '' \<and> CHR ''+'' \<notin> set '' shift''
   \<and> trim (toLowerCase ''Cmd '') = ''cmd'' \<and> trim (toLowerCase '' shift'') = ''shift''
   \<and> CHR ''+'' \<notin> set [CHR 0xC3, CHR 0x89]
   \<and> trim (toLowerCase [CHR 0xC3, CHR 0x89]) \<notin> set modifier_tokens
   \<and> custom_key (no_arguments\<lparr>custom_key := Some (''Cmd + shift+'' @ [CHR 0xC3, CHR 0x89])\<rparr>)
       = Some (''Cmd + shift+'' @ [CHR 0xC3, CHR 0x89])
   \<and> snd (handleRaycastShortcut (answering '''') []
             (Some (no_arguments\<lparr>custom_key
                                     := Some (''Cmd + shift+'' @ [CHR 0xC3, CHR 0x89])\<rparr>)))
       = [''osascript -e '' @ [CHR 0x27]
          @ ''tell application "System Events" to keystroke "'' @ [CHR 0xC3, CHR 0xA9]
          @ ''" using {command down, shift down}'' @ [CHR 0x27]]\<close>
proof -
  have low: "toLowerCase [CHR 0xC3, CHR 0x89] = [CHR 0xC3, CHR 0xA9]"
    "toLowerCase ''Cmd '' = ''cmd ''" "toLowerCase '' shift'' = '' shift''"
    by code_simp+
  have tr: "trim [CHR 0xC3, CHR 0xA9] = [CHR 0xC3, CHR 0xA9]" "trim ''cmd '' = ''cmd''"
    "trim '' shift'' = ''shift''"
    by code_simp+
  have 1: "\<forall>m \<in> set [''Cmd '', '' shift''].
             CHR ''+'' \<notin> set m \<and> trim (toLowerCase m) \<in> set modifier_tokens"
    by (simp add: low tr modifier_tokens_def)
  have 2: "CHR ''+'' \<notin> set [CHR 0xC3, CHR 0x89]"
    by simp
  have 3: "trim (toLowerCase [CHR 0xC3, CHR 0x89]) \<notin> set modifier_tokens"
    by (simp add: low tr modifier_tokens_def)
  have 4: "custom_key (no_arguments\<lparr>custom_key
                                       := Some (''Cmd + shift+'' @ [CHR 0xC3, CHR 0x89])\<rparr>)
             = Some (concat (map (\<lambda>m. m @ ''+'') [''Cmd '', '' shift''])
                     @ [CHR 0xC3, CHR 0x89])"
    by simp
  have 5: "concat (map (\<lambda>m. m @ ''+'') [''Cmd '', '' shift'']) @ [CHR 0xC3, CHR 0x89] \<noteq> []"
    by simp
  have \<open>snd (handleRaycastShortcut (answering '''') []
               (Some (no_arguments\<lparr>custom_key
                                       := Some (''Cmd + shift+'' @ [CHR 0xC3, CHR 0x89])\<rparr>)))
       = [''osascript -e '' @ [CHR 0x27]
          @ ''tell application "System Events" to keystroke "'' @ [CHR 0xC3, CHR 0xA9]
          @ ''" using {command down, shift down}'' @ [CHR 0x27]]\<close>
    using custom_key_payload [OF 1 2 3 4 5, of "answering ''''" "[]"]
    by (simp add: low tr modifier_tokens_def applescript_modifier_def osascript_def)
  then show ?thesis
    using 2 3 by (simp add: low tr)
qed

section \<open>Resolution is deterministic\<close>

lemma executed_plain:
  "executed e h (plain c # ds)
     = c # (case settle e h c of Inl err \<Rightarrow> [] | Inr r \<Rightarrow> executed e (h @ [c]) ds)"
  by (simp add: plain_def executed.simps split: sum.split)

lemma executed_prefix: "prefix (executed e h ds) (concat (map invocations ds))"
  by (induction ds arbitrary: h) (auto simp: executed.simps invocations_def split: sum.splits)

lemma executed_obliging:
  assumes "obliging e"
  shows "executed e h ds = concat (map invocations ds)"
proof (induction ds arbitrary: h)
  case Nil
  show ?case by simp
next
  case (Cons d ds)
  have ok: "\<exists>r. settle e h c = Inr r \<and> trim (stdout r) = ''confirmed''" for h c
    using assms [unfolded obliging_def, rule_format, of h c]
    by (cases "settle e h c") simp_all
  obtain r where dialog:
    "settle e h (osascript (confirmScript (destructiveLabel d))) = Inr r"
    "trim (stdout r) = ''confirmed''"
    using ok by blast
  obtain r1 where gated:
    "settle e (h @ [osascript (confirmScript (destructiveLabel d))]) (payload d) = Inr r1"
    using ok by blast
  obtain r2 where direct: "settle e h (payload d) = Inr r2"
    using ok by blast
  show ?case
    by (simp add: executed.simps dialog gated direct Cons.IH invocations_def)
qed

lemma triggerRaycastURL_run:
  "triggerRaycastURL e h u =
     (case settle e h (open_command u) of Inl err \<Rightarrow> Inl err | Inr r \<Rightarrow> Inr (),
      h @ [open_command u])"
  by (simp add: triggerRaycastURL_def execAsync_def run_without_timeout split: sum.splits)

lemma openRaycast_run:
  "openRaycast e h =
     (case settle e h ''open -a Raycast'' of Inl err \<Rightarrow> Inl err | Inr r \<Rightarrow> Inr (),
      h @ [''open -a Raycast''])"
  by (simp add: openRaycast_def execAsync_def run_without_timeout split: sum.splits)

lemma execAsync_run: "execAsync e h c None = (settle e h c, h @ [c])"
  by (simp add: execAsync_def run_without_timeout)

lemma snd_await:
  "snd (case (x, h') of (Inl err, h1) \<Rightarrow> F err h1 | (Inr r, h1) \<Rightarrow> K r h1)
     = (case x of Inl err \<Rightarrow> snd (F err h') | Inr r \<Rightarrow> snd (K r h'))"
  by (cases x) simp_all

lemma case_trigger:
  "(case (case s of Inl err \<Rightarrow> Inl err | Inr r \<Rightarrow> Inr ()) of Inl err \<Rightarrow> A err | Inr x \<Rightarrow> B)
     = (case s of Inl err \<Rightarrow> A err | Inr r \<Rightarrow> B)"
  by (cases s) simp_all

lemmas commands_only =
  execAsync_run triggerRaycastURL_run openRaycast_run snd_await case_trigger snd_conv
  if_distrib [of snd] option.case_distrib [of snd] property.case_distrib [of snd]
  sum.case_distrib [of snd] sum.case

lemmas executions = executed_plain url_trigger_def

lemma search_resolved:
  "snd (handleRaycastSearch_try e h a) = h @ executed e h (resolve_search a)"
  unfolding handleRaycastSearch_try_def resolve_search_def Let_def
  apply (simp only: commands_only
           cong: sum.case_cong option.case_cong if_cong property.case_cong)
  apply (simp add: executions split: sum.split option.split)
  done

lemma open_resolved:
  "snd (handleRaycastOpen_try e h a) = h @ executed e h (resolve_open a)"
  unfolding handleRaycastOpen_try_def resolve_open_def Let_def
  apply (simp only: commands_only
           cong: sum.case_cong option.case_cong if_cong property.case_cong)
  apply (simp add: executions split: sum.split option.split)
  done

lemma clipboard_resolved:
  "snd (handleRaycastClipboard_try e h a) = h @ executed e h (resolve_clipboard a)"
  unfolding handleRaycastClipboard_try_def resolve_clipboard_def Let_def
  apply (simp only: commands_only
           cong: sum.case_cong option.case_cong if_cong property.case_cong)
  apply (cases "action a = Some ''paste''")
   apply (cases "index a")
    apply (simp add: executions split: sum.split)
   apply (simp add: executions split: sum.split)
  apply (simp add: executions split: sum.split option.split)
  done

lemma shortcut_resolved:
  "snd (handleRaycastShortcut_try e h a) = h @ executed e h (resolve_shortcut a)"
  unfolding handleRaycastShortcut_try_def resolve_shortcut_def Let_def
  apply (simp only: commands_only
           cong: sum.case_cong option.case_cong if_cong property.case_cong)
  apply (simp add: executions split: sum.split option.split)
  done

lemma window_resolved:
  "snd (handleRaycastWindow_try e h a) = h @ executed e h (resolve_window a)"
  unfolding handleRaycastWindow_try_def resolve_window_def Let_def
  apply (simp only: commands_only
           cong: sum.case_cong option.case_cong if_cong property.case_cong)
  apply (simp add: executions split: sum.split option.split)
  done

lemma inherited_is_not_destructive:
  assumes "get_prop systemCommands f = Inherited q"
  shows "\<not> array_includes destructive f"
proof
  assume "array_includes destructive f"
  then obtain s where "f = Some s" and "s \<in> set destructive"
    by (auto simp: array_includes_def split: option.splits)
  with destructive_commands [of s] assms show False
    by auto
qed

lemma system_resolved:
  "snd (handleRaycastSystem_try e h a) = h @ executed e h (resolve_system a)"
  unfolding handleRaycastSystem_try_def resolve_system_def Let_def
  apply (simp only: commands_only
           cong: sum.case_cong option.case_cong if_cong property.case_cong)
  apply (cases "get_prop systemCommands (func a)")
    apply (cases "confirm a")
     apply (simp_all add: executed.simps property_truthy_def inherited_is_not_destructive
              split: sum.split)
  done

lemma auth_resolved:
  "snd (handleAuthTool_try cfg e h a) = h @ executed e h (resolve_auth a)"
proof (cases "action a = Some ''oauth'' \<and> truthy (service a)")
  case True
  then have srv: "Some (template (service a)) = service a"
    by (cases "service a") (simp_all add: truthy_def template_def)
  show ?thesis
    using True
    by (cases "settle e h (open_command (property_string (get_prop oauthUrls (service a))))")
       (simp_all add: handleAuthTool_try_def resolve_auth_def initiateOAuth_def srv Let_def
          execAsync_run executions)
next
  case False
  then show ?thesis
    by (auto simp: handleAuthTool_try_def resolve_auth_def Let_def)
qed

lemma publish_commands:
  "snd (publish e h path) = h @ [cat_command (path @ ''/package.json'')]"
  unfolding publish_def Let_def
  apply (simp only: commands_only
           cong: sum.case_cong option.case_cong if_cong property.case_cong)
  apply (simp split: sum.split option.split)
  done

lemma extensions_resolved:
  "snd (handleExtensionsTool_try e h a) = h @ executed e h (resolve_extensions a)"
  unfolding handleExtensionsTool_try_def resolve_extensions_def Let_def
  apply (simp only: commands_only publish_commands
           cong: sum.case_cong option.case_cong if_cong property.case_cong)
  apply (simp add: executions split: sum.split option.split)
  done

lemma workflows_resolved:
  "snd (handleWorkflowsTool_try cfg e h a) = h @ executed e h (resolve_workflows a)"
  unfolding handleWorkflowsTool_try_def resolve_workflows_def Let_def
  apply (simp only: commands_only
           cong: sum.case_cong option.case_cong if_cong property.case_cong)
  apply (cases "workflow_name a")
   apply (simp_all add: executions get_prop_def predefinedWorkflows_def template_def
            truthy_def object_prototype_def split: sum.split option.split)
  done

lemmas resolved =
  search_resolved open_resolved clipboard_resolved shortcut_resolved window_resolved
  system_resolved auth_resolved extensions_resolved workflows_resolved

lemma callTool_resolved:
  "snd (callTool cfg e h request) = h @ executed e h (resolve request)"
proof (cases "arguments request")
  case None
  then show ?thesis
    by (simp add: callTool_def handleToolCall_def handlers destructured_None resolve_def
          Let_def case_prod_beta)
next
  case (Some a)
  then show ?thesis
    by (simp add: callTool_def handleToolCall_def handlers destructured_Some resolve_def
          resolved Let_def case_prod_beta)
qed

text \<open>
  C8. What a request is resolved to is a function of the request alone: \<open>resolve\<close> gives
  the descriptors, each with its payload, its kind and its confirmation requirement, and
  has no other argument, so that resolving a request twice gives the same descriptors.
  The handlers run exactly these descriptors: on every machine and from every history,
  the commands that the server's handler adds to the history for a request, whatever the
  tool, the action and the parameters, are those of running the descriptors of the request
  one after the other, the dialog before a descriptor that requires confirmation, up to
  the first command that fails or the first dialog that is not confirmed. They are
  therefore a beginning of one sequence of invocations, which depends on the request
  only, and on a machine where every command succeeds and every dialog is confirmed
  they are that whole sequence.
\<close>

theorem resolution_is_deterministic:
  "snd (callTool cfg e h request) = h @ executed e h (resolve request)
   \<and> prefix (executed e h (resolve request)) (concat (map invocations (resolve request)))
   \<and> (obliging e \<longrightarrow>
        snd (callTool cfg e h request) = h @ concat (map invocations (resolve request)))"
  by (simp add: callTool_resolved executed_prefix executed_obliging)

theorem resolution_is_deterministic_witness:
  \<open>obliging (answering ''confirmed'')
   \<and> resolve \<lparr>name = ''raycast_system'',
               arguments = Some (no_arguments\<lparr>func := Some ''restart''\<rparr>)\<rparr>
       = [\<lparr>kind = ShellCommand, payload = ''sudo shutdown -r now'',
           requiresConfirmation = True, destructiveLabel = Some ''restart''\<rparr>]
   \<and> snd (callTool no_credentials (answering ''confirmed'') [''pmset sleepnow'']
             \<lparr>name = ''raycast_system'',
              arguments = Some (no_arguments\<lparr>func := Some ''restart''\<rparr>)\<rparr>)
       = [''pmset sleepnow'', osascript (confirmScript (Some ''restart'')),
          ''sudo shutdown -r now'']
   \<and> resolve \<lparr>name = ''raycast_shortcut'',
               arguments = Some (no_arguments\<lparr>shortcut := Some ''calculator''\<rparr>)\<rparr>
       = [\<lparr>kind = UrlTrigger,
           payload = ''open "raycast://extensions/raycast/calculator/calculator"'',
           requiresConfirmation = False, destructiveLabel = None\<rparr>]
   \<and> snd (callTool no_credentials (answering ''confirmed'') []
             \<lparr>name = ''raycast_shortcut'',
              arguments = Some (no_arguments\<lparr>shortcut := Some ''calculator''\<rparr>)\<rparr>)
       = [''open "raycast://extensions/raycast/calculator/calculator"'']\<close>
proof -
  have confirmed: "trim ''confirmed'' = ''confirmed''"
    by code_simp
  have obliging: "obliging (answering ''confirmed'')"
    by (simp add: obliging_def answering_def machine_fields confirmed)
  have restart:
    "resolve \<lparr>name = ''raycast_system'',
              arguments = Some (no_arguments\<lparr>func := Some ''restart''\<rparr>)\<rparr>
       = [\<lparr>kind = ShellCommand, payload = ''sudo shutdown -r now'',
           requiresConfirmation = True, destructiveLabel = Some ''restart''\<rparr>]"
    by (simp add: resolve_def resolve_system_def get_prop_def systemCommands_def template_def
          no_arguments_def array_includes_def destructive_def kind_of_def)
  have calculator:
    \<open>resolve \<lparr>name = ''raycast_shortcut'',
              arguments = Some (no_arguments\<lparr>shortcut := Some ''calculator''\<rparr>)\<rparr>
       = [\<lparr>kind = UrlTrigger,
           payload = ''open "raycast://extensions/raycast/calculator/calculator"'',
           requiresConfirmation = False, destructiveLabel = None\<rparr>]\<close>
    by (simp add: resolve_def resolve_shortcut_def get_prop_def shortcuts_def template_def
          no_arguments_def truthy_def property_truthy_def property_string_def url_trigger_def
          plain_def open_command_def kind_of_def)
  note restarted =
    resolution_is_deterministic
      [of no_credentials "answering ''confirmed''" "[''pmset sleepnow'']"
          "\<lparr>name = ''raycast_system'',
            arguments = Some (no_arguments\<lparr>func := Some ''restart''\<rparr>)\<rparr>",
       THEN conjunct2, THEN conjunct2, rule_format, OF obliging]
  note calculated =
    resolution_is_deterministic
      [of no_credentials "answering ''confirmed''" "[]"
          "\<lparr>name = ''raycast_shortcut'',
            arguments = Some (no_arguments\<lparr>shortcut := Some ''calculator''\<rparr>)\<rparr>",
       THEN conjunct2, THEN conjunct2, rule_format, OF obliging]
  show ?thesis
    using restarted calculated obliging
    by (simp add: restart calculator invocations_def)
qed

section \<open>Free text in the payloads\<close>










end
